theory Spec2Isabelle
  imports Complex_Main "HOL-Library.Log_Nat"
begin

section \<open>Numbers\<close>

text \<open>
  A JavaScript \<open>number\<close> is an IEEE 754 double. \<open>Finite s m e\<close> is the double
  \<open>(-1)\<^sup>s * m * 2\<^sup>e\<close> in its one encoding: \<open>0 \<le> m < 2\<^sup>5\<^sup>3\<close>,
  \<open>-1074 \<le> e \<le> 971\<close>, and \<open>2\<^sup>5\<^sup>2 \<le> m\<close> unless \<open>e = -1074\<close> (zero and the
  subnormal numbers). \<open>s\<close> is the sign bit, so there are two zeros.
\<close>

datatype double = Finite bool int int | Infinity bool | NaN

text \<open>The fraction \<open>a / b * 2\<^sup>k\<close>, as a numerator and a denominator.\<close>

definition scaled :: "int \<Rightarrow> int \<Rightarrow> int \<Rightarrow> int \<times> int" where
  "scaled a b k = (if 0 \<le> k then (a * 2 ^ nat k, b) else (a, b * 2 ^ nat (- k)))"

text \<open>The integer nearest to \<open>a / b\<close>, the even one of two that are equally near.\<close>

definition round_half_even :: "int \<Rightarrow> int \<Rightarrow> int" where
  "round_half_even a b =
     (let q = a div b; r = a mod b
      in if 2 * r < b then q else if b < 2 * r then q + 1 else if even q then q else q + 1)"

text \<open>
  The double nearest to \<open>a / b * 2\<^sup>k\<close> with sign bit \<open>s\<close>, for \<open>0 \<le> a\<close> and \<open>0 < b\<close>:
  the rounding every arithmetic operation ends with (to nearest, ties to even). \<open>d\<close> or
  \<open>d - 1\<close> is the binary exponent of \<open>a / b\<close>; below \<open>-1022\<close> the spacing of the doubles
  stays that of the subnormal numbers; from \<open>2\<^sup>1\<^sup>0\<^sup>2\<^sup>4\<close> on the result is infinite.
\<close>

definition nearest :: "bool \<Rightarrow> int \<Rightarrow> int \<Rightarrow> int \<Rightarrow> double" where
  "nearest s a b k =
     (if a = 0 then Finite s 0 (- 1074)
      else let d = bitlen a - bitlen b;
               (a', b') = scaled a b (- d);
               e = max ((if b' \<le> a' then d else d - 1) + k) (- 1022);
               (n, dn) = scaled a b (k - e + 52);
               m = round_half_even n dn
           in if m = 2 ^ 53
              then (if 971 < e - 51 then Infinity s else Finite s (2 ^ 52) (e - 51))
              else (if 971 < e - 52 then Infinity s else Finite s m (e - 52)))"

text \<open>
  The number a decimal literal of the source or a decimal text denotes: \<open>number 145 1000\<close>
  is \<open>0.145\<close>.
\<close>

definition number :: "int \<Rightarrow> int \<Rightarrow> double" where
  "number a b = nearest (a < 0) \<bar>a\<bar> b 0"

definition signed :: "bool \<Rightarrow> int \<Rightarrow> int" where
  "signed s m = (if s then - m else m)"

fun fneg :: "double \<Rightarrow> double" where
  "fneg NaN = NaN"
| "fneg (Infinity s) = Infinity (\<not> s)"
| "fneg (Finite s m e) = Finite (\<not> s) m e"

text \<open>
  \<open>x + y\<close>. A zero added to a zero is \<open>-0\<close> when both are and \<open>+0\<close> otherwise; a zero
  added to another number leaves it; other numbers are brought to a common exponent, and
  a sum that cancels is \<open>+0\<close>.
\<close>

fun fadd :: "double \<Rightarrow> double \<Rightarrow> double" where
  "fadd NaN y = NaN"
| "fadd x NaN = NaN"
| "fadd (Infinity s) (Infinity t) = (if s = t then Infinity s else NaN)"
| "fadd (Infinity s) (Finite t n f) = Infinity s"
| "fadd (Finite s m e) (Infinity t) = Infinity t"
| "fadd (Finite s m e) (Finite t n f) =
     (if m = 0 \<and> n = 0 then Finite (s \<and> t) 0 (- 1074)
      else if n = 0 then Finite s m e
      else if m = 0 then Finite t n f
      else let g = min e f;
               sum = signed s (m * 2 ^ nat (e - g)) + signed t (n * 2 ^ nat (f - g))
           in if sum = 0 then Finite False 0 (- 1074)
              else nearest (sum < 0) \<bar>sum\<bar> 1 g)"

text \<open>\<open>x - y\<close>\<close>

definition fsub :: "double \<Rightarrow> double \<Rightarrow> double" where
  "fsub x y = fadd x (fneg y)"

text \<open>\<open>x * y\<close>\<close>

fun fmul :: "double \<Rightarrow> double \<Rightarrow> double" where
  "fmul NaN y = NaN"
| "fmul x NaN = NaN"
| "fmul (Infinity s) (Infinity t) = Infinity (s \<noteq> t)"
| "fmul (Infinity s) (Finite t n f) = (if n = 0 then NaN else Infinity (s \<noteq> t))"
| "fmul (Finite s m e) (Infinity t) = (if m = 0 then NaN else Infinity (s \<noteq> t))"
| "fmul (Finite s m e) (Finite t n f) =
     (if m = 0 \<or> n = 0 then Finite (s \<noteq> t) 0 (- 1074)
      else nearest (s \<noteq> t) (m * n) 1 (e + f))"

text \<open>\<open>x / y\<close>\<close>

fun fdiv :: "double \<Rightarrow> double \<Rightarrow> double" where
  "fdiv NaN y = NaN"
| "fdiv x NaN = NaN"
| "fdiv (Infinity s) (Infinity t) = NaN"
| "fdiv (Infinity s) (Finite t n f) = Infinity (s \<noteq> t)"
| "fdiv (Finite s m e) (Infinity t) = Finite (s \<noteq> t) 0 (- 1074)"
| "fdiv (Finite s m e) (Finite t n f) =
     (if n = 0 then (if m = 0 then NaN else Infinity (s \<noteq> t))
      else if m = 0 then Finite (s \<noteq> t) 0 (- 1074)
      else nearest (s \<noteq> t) m n (e - f))"

text \<open>
  \<open>x > y\<close>: false when either is NaN. The zeros are equal; numbers of different sign
  compare by sign, the others at a common exponent.
\<close>

fun fgt :: "double \<Rightarrow> double \<Rightarrow> bool" where
  "fgt NaN y = False"
| "fgt x NaN = False"
| "fgt (Infinity s) (Infinity t) = (\<not> s \<and> t)"
| "fgt (Infinity s) (Finite t n f) = (\<not> s)"
| "fgt (Finite s m e) (Infinity t) = t"
| "fgt (Finite s m e) (Finite t n f) =
     (if m = 0 \<and> n = 0 then False
      else if m = 0 then t
      else if n = 0 then \<not> s
      else if s \<noteq> t then t
      else let g = min e f
           in signed t (n * 2 ^ nat (f - g)) < signed s (m * 2 ^ nat (e - g)))"

text \<open>\<open>x === y\<close> on numbers: NaN equals nothing, and the two zeros are equal.\<close>

fun feq :: "double \<Rightarrow> double \<Rightarrow> bool" where
  "feq NaN y = False"
| "feq x NaN = False"
| "feq (Finite s m e) (Finite t n f) = (m = 0 \<and> n = 0 \<or> s = t \<and> m = n \<and> e = f)"
| "feq x y = (x = y)"

text \<open>
  \<open>Number(x.toFixed(2))\<close>. \<open>toFixed\<close> works on the exact value of the double: it takes
  the sign off, picks the integer \<open>n\<close> with \<open>n / 100\<close> nearest to the magnitude (the larger
  one on a tie) and writes \<open>n / 100\<close> in decimal with the sign (a zero has none); from \<open>10\<^sup>2\<^sup>1\<close> on, and for
  NaN and the infinite numbers, it writes the number as \<open>String\<close> does. \<open>Number\<close> reads
  the text back as the nearest double.
\<close>

fun toFixed2 :: "double \<Rightarrow> double" where
  "toFixed2 NaN = NaN"
| "toFixed2 (Infinity s) = Infinity s"
| "toFixed2 (Finite s m e) =
     (if m = 0 then Finite False 0 (- 1074)
      else let (a, b) = scaled m 1 e
           in if 10 ^ 21 * b \<le> a then Finite s m e
              else nearest s ((200 * a + b) div (2 * b)) 100 0)"

text \<open>The rational number a finite double stands for.\<close>

fun value_of :: "double \<Rightarrow> rat" where
  "value_of (Finite s m e) = (let (a, b) = scaled (signed s m) 1 e in of_int a / of_int b)"
| "value_of x = 0"

text \<open>\<open>Number.isFinite(x)\<close>, and whether \<open>x\<close> is one of the two zeros.\<close>

fun is_finite :: "double \<Rightarrow> bool" where
  "is_finite (Finite s m e) = True"
| "is_finite x = False"

fun is_zero :: "double \<Rightarrow> bool" where
  "is_zero (Finite s m e) = (m = 0)"
| "is_zero x = False"

text \<open>The values of the type that are doubles: those in the encoding described above.\<close>

fun encoded :: "double \<Rightarrow> bool" where
  "encoded (Finite s m e) =
     (0 \<le> m \<and> m < 2 ^ 53 \<and> - 1074 \<le> e \<and> e \<le> 971 \<and> (2 ^ 52 \<le> m \<or> e = - 1074))"
| "encoded x = True"

text \<open>
  What a field declared \<open>number\<close> holds: a number or, after \<open>JSON.parse\<close>, possibly
  \<open>null\<close>. In arithmetic \<open>null\<close> counts as \<open>+0\<close>.
\<close>

datatype jsnum = Null | Number double

fun toNumber :: "jsnum \<Rightarrow> double" where
  "toNumber Null = Finite False 0 (- 1074)"
| "toNumber (Number x) = x"

text \<open>\<open>x === y\<close> on such fields; \<open>null\<close> equals \<open>null\<close> alone.\<close>

fun strictly_equal :: "jsnum \<Rightarrow> jsnum \<Rightarrow> bool" where
  "strictly_equal Null Null = True"
| "strictly_equal (Number x) (Number y) = feq x y"
| "strictly_equal x y = False"

section \<open>Data model (types.ts)\<close>

text \<open>
  Field names of the source are kept; where two interfaces share a field name the name
  carries the interface as a suffix (\<open>id_item\<close>, \<open>id_pay\<close>, \<open>id_inv\<close>, ...).
  \<open>createdAt\<close> holds what \<open>Date.now()\<close> returns, a count of milliseconds.
\<close>

record InvoiceItem =
  id_item :: string
  name_item :: string
  qty :: jsnum
  rate :: jsnum
  tp :: jsnum
  discount :: jsnum
  totalPerPiece :: jsnum
  totalAmount :: jsnum

record PaymentRow =
  id_pay :: string
  narration :: string
  amount :: jsnum

datatype InvoiceStatus = PENDING | PAID

record Invoice =
  id_inv :: string
  name_inv :: string
  date :: string
  items :: "InvoiceItem list"
  payments :: "PaymentRow list"
  status :: InvoiceStatus
  totalAmount_inv :: jsnum
  remainingBalance_inv :: jsnum
  createdAt :: nat

section \<open>Pricing (InvoiceEditor.tsx, calculateRow)\<close>

definition calculateRow :: "InvoiceItem \<Rightarrow> InvoiceItem" where
  "calculateRow item =
     (let tp' = (if fgt (toNumber (rate item)) (number 0 1)
                 then fmul (toNumber (rate item)) (fsub (number 1 1) (number 145 1000))
                 else number 0 1);
          finalUnit =
            (if \<not> strictly_equal (discount item) (Number (number 0 1)) then
               let baseForDiscount = fmul tp' (fsub (number 1 1) (number 15 100));
                   percentageDecimal = fdiv (toNumber (discount item)) (number 100 1)
               in fadd baseForDiscount (fmul baseForDiscount percentageDecimal)
             else tp');
          totalAmt = fmul finalUnit (toNumber (qty item))
      in item\<lparr>tp := Number (toFixed2 tp'),
               totalPerPiece := Number (toFixed2 finalUnit),
               totalAmount := Number (toFixed2 totalAmt)\<rparr>)"

section \<open>Arrays written by index\<close>

text \<open>
  TypeScript does not check an index, and JavaScript does not raise on one that is out of
  range: reading \<open>xs[i]\<close> there yields \<open>undefined\<close>, spreading \<open>undefined\<close>
  yields an empty object, and writing \<open>xs[i] = v\<close> past the end extends the array,
  leaving holes. An array of the editor is therefore a list of slots. \<open>Item x\<close> is a value
  of the declared element type. \<open>Untracked\<close> stands for anything else a slot can hold (a
  hole, \<open>undefined\<close>, an object that lacks fields of the interface); the model follows
  where such slots are, not what they contain. Indices are integers.
\<close>

datatype 'a slot = Item 'a | Untracked

text \<open>\<open>xs[i]\<close> as a read.\<close>

definition at_index :: "'a slot list \<Rightarrow> int \<Rightarrow> 'a slot" where
  "at_index xs i = (if 0 \<le> i \<and> i < int (length xs) then xs ! nat i else Untracked)"

text \<open>
  \<open>ys = [...xs]; ys[i] = v\<close>. The array indices are the integers from 0 to
  \<open>2\<^sup>3\<^sup>2 - 2\<close>: in range the slot is replaced, and past the end the array grows to
  \<open>i + 1\<close> slots. Any other \<open>i\<close> (negative, or from \<open>2\<^sup>3\<^sup>2 - 1\<close> on) names a property
  of the array object, not an element, so the sequence of elements stays as it is.
\<close>

definition assign_index :: "'a slot list \<Rightarrow> int \<Rightarrow> 'a slot \<Rightarrow> 'a slot list" where
  "assign_index xs i v =
     (if i < 0 \<or> 4294967295 \<le> i then xs
      else if i < int (length xs) then xs[nat i := v]
      else xs @ replicate (nat i - length xs) Untracked @ [v])"

text \<open>
  \<open>ys = [...xs]; ys.splice(start, deleteCount, ...new)\<close>: a negative start counts from
  the end, the start is clamped to the array and the count to what is left.
\<close>

definition splice_js :: "'a slot list \<Rightarrow> int \<Rightarrow> nat \<Rightarrow> 'a slot list \<Rightarrow> 'a slot list" where
  "splice_js xs start deleteCount new =
     (let len = int (length xs);
          s = nat (if start < 0 then max (len + start) 0 else min start len);
          d = min deleteCount (length xs - s)
      in take s xs @ new @ drop (s + d) xs)"

text \<open>The slots of an array as a list of the element type, when every slot is one.\<close>

fun typed :: "'a slot list \<Rightarrow> 'a list option" where
  "typed [] = Some []"
| "typed (Item x # xs) = map_option ((#) x) (typed xs)"
| "typed (Untracked # xs) = None"

section \<open>Row operations (InvoiceEditor.tsx)\<close>

text \<open>
  \<open>updateItem(index, field, value)\<close>: the pair of a key of InvoiceItem and a value of
  that key's declared type.
\<close>

datatype item_update =
  Set_id string | Set_name string | Set_qty double | Set_rate double | Set_tp double
  | Set_discount double | Set_totalPerPiece double | Set_totalAmount double

fun set_field :: "item_update \<Rightarrow> InvoiceItem \<Rightarrow> InvoiceItem" where
  "set_field (Set_id v) item = item\<lparr>id_item := v\<rparr>"
| "set_field (Set_name v) item = item\<lparr>name_item := v\<rparr>"
| "set_field (Set_qty v) item = item\<lparr>qty := Number v\<rparr>"
| "set_field (Set_rate v) item = item\<lparr>rate := Number v\<rparr>"
| "set_field (Set_tp v) item = item\<lparr>tp := Number v\<rparr>"
| "set_field (Set_discount v) item = item\<lparr>discount := Number v\<rparr>"
| "set_field (Set_totalPerPiece v) item = item\<lparr>totalPerPiece := Number v\<rparr>"
| "set_field (Set_totalAmount v) item = item\<lparr>totalAmount := Number v\<rparr>"

text \<open>\<open>['rate', 'qty', 'discount'].includes(field)\<close>\<close>

fun recalculated :: "item_update \<Rightarrow> bool" where
  "recalculated (Set_rate v) = True"
| "recalculated (Set_qty v) = True"
| "recalculated (Set_discount v) = True"
| "recalculated upd = False"

text \<open>
  A function of the source applied to what a slot holds. What is spread from an untracked
  slot, written to or recalculated, is not followed either.
\<close>

fun on_item :: "('a \<Rightarrow> 'a) \<Rightarrow> 'a slot \<Rightarrow> 'a slot" where
  "on_item f (Item x) = Item (f x)"
| "on_item f Untracked = Untracked"

definition updateItem :: "int \<Rightarrow> item_update \<Rightarrow> InvoiceItem slot list \<Rightarrow> InvoiceItem slot list" where
  "updateItem index upd items' =
     (let newItems = items';
          currentItem = on_item (set_field upd) (at_index newItems index)
      in if recalculated upd then assign_index newItems index (on_item calculateRow currentItem)
         else assign_index newItems index currentItem)"

text \<open>The identifier that \<open>generateId()\<close> returns is an argument of the operation.\<close>

definition addNewRow :: "string \<Rightarrow> InvoiceItem slot list \<Rightarrow> InvoiceItem slot list" where
  "addNewRow newId prev =
     prev @ [Item \<lparr>id_item = newId, name_item = [], qty = Number (number 0 1),
                    rate = Number (number 0 1), tp = Number (number 0 1),
                    discount = Number (number 0 1), totalPerPiece = Number (number 0 1),
                    totalAmount = Number (number 0 1)\<rparr>]"

definition deleteRow :: "int \<Rightarrow> InvoiceItem slot list \<Rightarrow> InvoiceItem slot list" where
  "deleteRow index items' =
     (if length items' > 1 then splice_js items' index 1 [] else items')"

definition duplicateRow :: "int \<Rightarrow> string \<Rightarrow> InvoiceItem slot list \<Rightarrow> InvoiceItem slot list" where
  "duplicateRow index newId items' =
     (let itemToCopy = at_index items' index;
          newItem = on_item (\<lambda>item. item\<lparr>id_item := newId\<rparr>) itemToCopy
      in splice_js items' (index + 1) 0 [newItem])"

subsection \<open>Payments\<close>

datatype payment_update = Set_id_pay string | Set_narration string | Set_amount double

fun set_payment_field :: "payment_update \<Rightarrow> PaymentRow \<Rightarrow> PaymentRow" where
  "set_payment_field (Set_id_pay v) p = p\<lparr>id_pay := v\<rparr>"
| "set_payment_field (Set_narration v) p = p\<lparr>narration := v\<rparr>"
| "set_payment_field (Set_amount v) p = p\<lparr>amount := Number v\<rparr>"

definition addPaymentRow :: "string \<Rightarrow> PaymentRow slot list \<Rightarrow> PaymentRow slot list" where
  "addPaymentRow newId prev =
     prev @ [Item \<lparr>id_pay = newId, narration = [], amount = Number (number 0 1)\<rparr>]"

definition updatePayment :: "int \<Rightarrow> payment_update \<Rightarrow> PaymentRow slot list \<Rightarrow> PaymentRow slot list" where
  "updatePayment index upd payments' =
     assign_index payments' index (on_item (set_payment_field upd) (at_index payments' index))"

definition deletePayment :: "int \<Rightarrow> PaymentRow slot list \<Rightarrow> PaymentRow slot list" where
  "deletePayment index payments' = splice_js payments' index 1 []"

subsection \<open>Totals\<close>

text \<open>
  The three constants the component computes at each render, on arrays of the declared
  types. \<open>reduce\<close> folds from the left, starting from 0, and each \<open>+\<close> is an addition
  of doubles; \<open>Number(p.amount)\<close> and the \<open>+\<close> on \<open>item.totalAmount\<close> take \<open>null\<close> for 0.
\<close>

definition grandTotal :: "InvoiceItem list \<Rightarrow> double" where
  "grandTotal items' = foldl (\<lambda>sum item. fadd sum (toNumber (totalAmount item))) (number 0 1) items'"

definition totalPaid :: "PaymentRow list \<Rightarrow> double" where
  "totalPaid payments' = foldl (\<lambda>sum p. fadd sum (toNumber (amount p))) (number 0 1) payments'"

definition remainingBalance :: "InvoiceItem list \<Rightarrow> PaymentRow list \<Rightarrow> double" where
  "remainingBalance items' payments' = fsub (grandTotal items') (totalPaid payments')"

section \<open>Storage (storageService.ts)\<close>

text \<open>
  \<open>JSON.stringify\<close> writes NaN and the infinite numbers as \<open>null\<close> and \<open>-0\<close> as \<open>0\<close>;
  every other double is written with the digits that \<open>JSON.parse\<close> reads back as the same
  double, and \<open>null\<close> stays \<open>null\<close>. Strings come back as they were.
\<close>

fun json_number :: "jsnum \<Rightarrow> jsnum" where
  "json_number Null = Null"
| "json_number (Number NaN) = Null"
| "json_number (Number (Infinity s)) = Null"
| "json_number (Number (Finite s m e)) = Number (Finite (s \<and> m \<noteq> 0) m e)"

definition json_InvoiceItem :: "InvoiceItem \<Rightarrow> InvoiceItem" where
  "json_InvoiceItem item =
     item\<lparr>qty := json_number (qty item), rate := json_number (rate item),
          tp := json_number (tp item), discount := json_number (discount item),
          totalPerPiece := json_number (totalPerPiece item),
          totalAmount := json_number (totalAmount item)\<rparr>"

definition json_PaymentRow :: "PaymentRow \<Rightarrow> PaymentRow" where
  "json_PaymentRow p = p\<lparr>amount := json_number (amount p)\<rparr>"

definition json_Invoice :: "Invoice \<Rightarrow> Invoice" where
  "json_Invoice invoice =
     invoice\<lparr>items := map json_InvoiceItem (items invoice),
             payments := map json_PaymentRow (payments invoice),
             totalAmount_inv := json_number (totalAmount_inv invoice),
             remainingBalance_inv := json_number (remainingBalance_inv invoice)\<rparr>"

text \<open>
  The numbers \<open>JSON.stringify\<close> writes as they are, and the invoices all of whose numbers
  are such.
\<close>

fun written_as_is :: "jsnum \<Rightarrow> bool" where
  "written_as_is Null = True"
| "written_as_is (Number (Finite s m e)) = (\<not> (s \<and> m = 0))"
| "written_as_is (Number x) = False"

definition json_safe :: "Invoice \<Rightarrow> bool" where
  "json_safe invoice =
     (list_all (\<lambda>item. written_as_is (qty item) \<and> written_as_is (rate item)
          \<and> written_as_is (tp item) \<and> written_as_is (discount item)
          \<and> written_as_is (totalPerPiece item) \<and> written_as_is (totalAmount item))
        (items invoice)
      \<and> list_all (\<lambda>p. written_as_is (amount p)) (payments invoice)
      \<and> written_as_is (totalAmount_inv invoice)
      \<and> written_as_is (remainingBalance_inv invoice))"

text \<open>
  The JSON text of a list of invoices is held as a list that \<open>JSON.stringify\<close> writes
  as this text: the application stores no other texts under these keys, every one being
  written by \<open>saveInvoice\<close> or \<open>deleteInvoice\<close>. Several lists have the same text,
  so writing and reading both pass the numbers through \<open>json_number\<close>: what is read is
  what the text says.
\<close>

datatype json = Json "Invoice list"

definition JSON_stringify :: "Invoice list \<Rightarrow> json" where
  "JSON_stringify invoices = Json (map json_Invoice invoices)"

fun JSON_parse :: "json \<Rightarrow> Invoice list" where
  "JSON_parse (Json invoices) = map json_Invoice invoices"

text \<open>The browser's local storage, as far as the keys of the invoice lists go.\<close>

type_synonym localStorage = "string \<rightharpoonup> json"

definition DATA_PREFIX :: string where
  "DATA_PREFIX = ''hisaab_data_''"

definition getInvoices :: "string \<Rightarrow> localStorage \<Rightarrow> Invoice list" where
  "getInvoices username ls =
     (case ls (DATA_PREFIX @ username) of Some data \<Rightarrow> JSON_parse data | None \<Rightarrow> [])"

text \<open>\<open>findIndex\<close> returns the first index whose element passes the test, or \<open>-1\<close> (here None).\<close>

fun findIndex :: "('a \<Rightarrow> bool) \<Rightarrow> 'a list \<Rightarrow> nat option" where
  "findIndex P [] = None"
| "findIndex P (x # xs) = (if P x then Some 0 else map_option Suc (findIndex P xs))"

definition saveInvoice :: "string \<Rightarrow> Invoice \<Rightarrow> localStorage \<Rightarrow> localStorage" where
  "saveInvoice username invoice ls =
     (let invoices = getInvoices username ls;
          invoices' =
            (case findIndex (\<lambda>inv. id_inv inv = id_inv invoice) invoices of
               Some existingIndex \<Rightarrow> invoices[existingIndex := invoice]
             | None \<Rightarrow> invoices @ [invoice])
      in ls(DATA_PREFIX @ username \<mapsto> JSON_stringify invoices'))"

definition deleteInvoice :: "string \<Rightarrow> string \<Rightarrow> localStorage \<Rightarrow> localStorage" where
  "deleteInvoice username invoiceId ls =
     (let invoices = getInvoices username ls;
          updated = filter (\<lambda>inv. id_inv inv \<noteq> invoiceId) invoices
      in ls(DATA_PREFIX @ username \<mapsto> JSON_stringify updated))"

text \<open>
  The dashboard's \<open>toggleStatus\<close>, as far as the store goes: the invoice is saved again
  with the other status and every other field as it was.
\<close>

definition toggleStatus :: "string \<Rightarrow> Invoice \<Rightarrow> localStorage \<Rightarrow> localStorage" where
  "toggleStatus username invoice ls =
     (let updatedInvoice = invoice\<lparr>status := (if status invoice = PAID then PENDING else PAID)\<rparr>
      in saveInvoice username updatedInvoice ls)"

section \<open>The editing session (InvoiceEditor.tsx)\<close>

record editor =
  invoiceName :: string
  invoiceDate :: string
  items_st :: "InvoiceItem slot list"
  payments_st :: "PaymentRow slot list"
  status_st :: InvoiceStatus

text \<open>
  \<open>existingInvoiceId: string | null\<close> is tested for truth: null and the empty string
  both count as no invoice.
\<close>

fun truthy :: "string option \<Rightarrow> string option" where
  "truthy None = None"
| "truthy (Some s) = (if s = [] then None else Some s)"

text \<open>
  The state after the initialisation effect has run: \<open>today\<close> is the date the state starts
  with and \<open>newId\<close> the identifier of the blank row of a new invoice.
\<close>

definition initialise :: "string \<Rightarrow> string option \<Rightarrow> string \<Rightarrow> string \<Rightarrow> localStorage \<Rightarrow> editor" where
  "initialise username existingInvoiceId today newId ls =
     (let st = \<lparr>invoiceName = [], invoiceDate = today, items_st = [],
                payments_st = [], status_st = PENDING\<rparr>
      in case truthy existingInvoiceId of
           Some eid \<Rightarrow>
             (let allInvoices = getInvoices username ls
              in case find (\<lambda>i. id_inv i = eid) allInvoices of
                   Some found \<Rightarrow>
                     st\<lparr>invoiceName := name_inv found, invoiceDate := date found,
                        items_st := map Item (items found),
                        payments_st := map Item (payments found),
                        status_st := status found\<rparr>
                 | None \<Rightarrow> st)
         | None \<Rightarrow> st\<lparr>items_st := addNewRow newId (items_st st)\<rparr>)"

text \<open>
  \<open>handleSave\<close>: without a name it alerts and writes nothing. Otherwise it writes the
  snapshot; \<open>newId\<close> is what \<open>generateId()\<close> returns and \<open>now\<close> what \<open>Date.now()\<close>
  returns. A state with an untracked slot gives a snapshot that is not a value of the
  Invoice interface, which the model does not follow.
\<close>

datatype save_result = Alerted | Saved localStorage | Not_an_Invoice

definition handleSave ::
  "string \<Rightarrow> string option \<Rightarrow> string \<Rightarrow> nat \<Rightarrow> editor \<Rightarrow> localStorage \<Rightarrow> save_result" where
  "handleSave username existingInvoiceId newId now st ls =
     (if invoiceName st = [] then Alerted
      else case (typed (items_st st), typed (payments_st st)) of
        (Some items', Some payments') \<Rightarrow>
          (let invoiceData =
                 \<lparr>id_inv = (case truthy existingInvoiceId of Some eid \<Rightarrow> eid | None \<Rightarrow> newId),
                  name_inv = invoiceName st,
                  date = invoiceDate st,
                  items = items',
                  payments = payments',
                  status = status_st st,
                  totalAmount_inv = Number (grandTotal items'),
                  remainingBalance_inv = Number (remainingBalance items' payments'),
                  createdAt = now\<rparr>
           in Saved (saveInvoice username invoiceData ls))
      | _ \<Rightarrow> Not_an_Invoice)"

text \<open>The user's actions on the editor, one at a time.\<close>

datatype action =
  AddNewRow string
  | UpdateItem int item_update
  | DeleteRow int
  | DuplicateRow int string
  | AddPaymentRow string
  | UpdatePayment int payment_update
  | DeletePayment int
  | SetInvoiceName string
  | SetInvoiceDate string
  | SetStatus InvoiceStatus

fun perform :: "editor \<Rightarrow> action \<Rightarrow> editor" where
  "perform st (AddNewRow newId) = st\<lparr>items_st := addNewRow newId (items_st st)\<rparr>"
| "perform st (UpdateItem index upd) = st\<lparr>items_st := updateItem index upd (items_st st)\<rparr>"
| "perform st (DeleteRow index) = st\<lparr>items_st := deleteRow index (items_st st)\<rparr>"
| "perform st (DuplicateRow index newId) =
     st\<lparr>items_st := duplicateRow index newId (items_st st)\<rparr>"
| "perform st (AddPaymentRow newId) = st\<lparr>payments_st := addPaymentRow newId (payments_st st)\<rparr>"
| "perform st (UpdatePayment index upd) =
     st\<lparr>payments_st := updatePayment index upd (payments_st st)\<rparr>"
| "perform st (DeletePayment index) = st\<lparr>payments_st := deletePayment index (payments_st st)\<rparr>"
| "perform st (SetInvoiceName v) = st\<lparr>invoiceName := v\<rparr>"
| "perform st (SetInvoiceDate v) = st\<lparr>invoiceDate := v\<rparr>"
| "perform st (SetStatus v) = st\<lparr>status_st := v\<rparr>"

definition run :: "editor \<Rightarrow> action list \<Rightarrow> editor" where
  "run st acts = foldl perform st acts"

section \<open>Properties of the numbers\<close>

lemma number_zero: "number 0 1 = Finite False 0 (- 1074)"
  by (simp add: number_def nearest_def)

lemma number_hundred: "number 100 1 = Finite False 7036874417766400 (- 46)"
  by code_simp

lemma margin_tp: "fsub (number 1 1) (number 145 1000) = number 855 1000"
  by code_simp

lemma margin_discount: "fsub (number 1 1) (number 15 100) = number 85 100"
  by code_simp

lemma number_85_100: "number 85 100 = Finite False 7656119366529843 (- 53)"
  by code_simp

lemma number_1e308: "number (10 ^ 308) 1 = Finite False 5010420900022432 971"
  by code_simp

lemma toFixed2_zero: "toFixed2 (Finite s 0 e) = Finite False 0 (- 1074)"
  by simp

lemma is_finite_toFixed2: "is_finite (toFixed2 x) \<Longrightarrow> is_finite x"
  by (cases x) simp_all

lemma nearest_finite:
  assumes "0 < a" and "0 < b" and "a < b * 2 ^ j" and "int j + k \<le> 1023"
  shows "is_finite (nearest s a b k)"
proof -
  define d where "d = bitlen a - bitlen b"
  define e0 where "e0 = (if snd (scaled a b (- d)) \<le> fst (scaled a b (- d)) then d else d - 1)"
  have la: "2 ^ nat (bitlen a - 1) \<le> a" and lb: "b < 2 ^ nat (bitlen b)"
    using bitlen_bounds [OF assms(1)] bitlen_bounds [OF assms(2)] by simp_all
  have pa: "1 \<le> bitlen a" and pb: "1 \<le> bitlen b"
    using assms(1,2) bitlen_eq_zero_iff [of a] bitlen_eq_zero_iff [of b] bitlen_nonneg [of a]
      bitlen_nonneg [of b] by linarith+
  have "(2::int) ^ nat (bitlen a - 1) < 2 ^ nat (bitlen b) * 2 ^ j"
  proof -
    have "b * 2 ^ j \<le> 2 ^ nat (bitlen b) * (2 ^ j :: int)"
      using lb by (intro mult_right_mono) simp_all
    with la assms(3) show ?thesis by linarith
  qed
  then have "(2::int) ^ nat (bitlen a - 1) < 2 ^ (nat (bitlen b) + j)"
    by (simp add: power_add)
  then have "nat (bitlen a - 1) < nat (bitlen b) + j"
    by (simp only: power_strict_increasing_iff [of "2::int"] one_less_numeral_iff semiring_norm)
  with pa pb have d: "d \<le> int j"
    unfolding d_def by linarith
  have "e0 \<le> int j - 1"
  proof (cases "d = int j")
    case True
    then have "scaled a b (- d) = (a, b * 2 ^ j)"
      by (simp add: scaled_def)
    with assms(3) have "\<not> snd (scaled a b (- d)) \<le> fst (scaled a b (- d))"
      by simp
    with True show ?thesis
      unfolding e0_def by simp
  next
    case False
    with d show ?thesis
      unfolding e0_def by simp
  qed
  with assms(4) have e: "max (e0 + k) (- 1022) \<le> 1022"
    by simp
  show ?thesis
    using assms(1) e unfolding nearest_def e0_def d_def
    by (auto simp: Let_def split_beta split: if_splits)
qed

lemma fdiv_hundred_finite:
  assumes "is_finite x" and "encoded x"
  shows "is_finite (fdiv x (number 100 1))"
proof (cases x)
  case (Finite s m e)
  with assms(2) have m: "0 \<le> m" "m < 2 ^ 53" and e: "e \<le> 971"
    by simp_all
  show ?thesis
  proof (cases "m = 0")
    case True
    with Finite show ?thesis by (simp add: number_hundred)
  next
    case False
    with m have mp: "0 < m" by simp
    have "m < 7036874417766400 * 2 ^ 1"
      using m(2) by simp
    moreover have "int 1 + (e + 46) \<le> 1023"
      using e by simp
    ultimately have "is_finite (nearest (s \<noteq> False) m 7036874417766400 (e + 46))"
      using mp by (intro nearest_finite [where j = 1]) simp_all
    with Finite False show ?thesis
      by (simp add: number_hundred)
  qed
qed (use assms in simp_all)

section \<open>Properties of the pricing\<close>

lemma tp_calculateRow:
  "tp (calculateRow item) =
     Number (toFixed2 (if fgt (toNumber (rate item)) (number 0 1)
                       then fmul (toNumber (rate item)) (number 855 1000) else number 0 1))"
  by (simp add: calculateRow_def Let_def margin_tp)

lemma totalPerPiece_calculateRow:
  "totalPerPiece (calculateRow item) =
     Number (toFixed2
       (let t = (if fgt (toNumber (rate item)) (number 0 1)
                 then fmul (toNumber (rate item)) (number 855 1000) else number 0 1)
        in if strictly_equal (discount item) (Number (number 0 1)) then t
           else fadd (fmul t (number 85 100))
                  (fmul (fmul t (number 85 100)) (fdiv (toNumber (discount item)) (number 100 1)))))"
  by (simp add: calculateRow_def Let_def margin_tp margin_discount)

lemma totalAmount_calculateRow:
  "totalAmount (calculateRow item) =
     Number (toFixed2 (fmul
       (let t = (if fgt (toNumber (rate item)) (number 0 1)
                 then fmul (toNumber (rate item)) (number 855 1000) else number 0 1)
        in if strictly_equal (discount item) (Number (number 0 1)) then t
           else fadd (fmul t (number 85 100))
                  (fmul (fmul t (number 85 100)) (fdiv (toNumber (discount item)) (number 100 1))))
       (toNumber (qty item))))"
  by (simp add: calculateRow_def Let_def margin_tp margin_discount)

lemma raw_fields_calculateRow:
  "id_item (calculateRow item) = id_item item" "name_item (calculateRow item) = name_item item"
  "qty (calculateRow item) = qty item" "rate (calculateRow item) = rate item"
  "discount (calculateRow item) = discount item"
  by (simp_all add: calculateRow_def Let_def)

text \<open>
  Claim C1, as the code has it. The three derived fields are each \<open>Number(x.toFixed(2))\<close>
  of an unrounded double: the trade price \<open>rate * 0.855\<close> (0 unless \<open>rate > 0\<close>; the
  double \<open>1 - 0.145\<close> is the double \<open>0.855\<close>), the unit price (the trade price, or with a
  discount \<open>base + base * (discount / 100)\<close> for the base \<open>tradePrice * 0.85\<close>), and the
  product of the unrounded unit price with the quantity, every operation being the one of
  doubles. The line total is the rounding of that product, not of the stored, already
  rounded unit price times the quantity.
\<close>

theorem calculateRow_rounds_unrounded_product:
  "let tradePrice = (if fgt (toNumber (rate item)) (number 0 1)
                     then fmul (toNumber (rate item)) (number 855 1000) else number 0 1);
       base = fmul tradePrice (number 85 100);
       unit = (if strictly_equal (discount item) (Number (number 0 1)) then tradePrice
               else fadd base (fmul base (fdiv (toNumber (discount item)) (number 100 1))))
   in tp (calculateRow item) = Number (toFixed2 tradePrice)
      \<and> totalPerPiece (calculateRow item) = Number (toFixed2 unit)
      \<and> totalAmount (calculateRow item) = Number (toFixed2 (fmul unit (toNumber (qty item))))"
  unfolding Let_def tp_calculateRow totalPerPiece_calculateRow totalAmount_calculateRow
  by simp

text \<open>
  Claim C1 as the specification states it fails at rate 1.1, quantity 100, no discount:
  the unit price is stored as 0.94 and the line total is 94.05, where the rounded
  unit price times the quantity is 94.
\<close>

theorem lineTotal_from_rounded_unit_counterexample:
  "totalAmount (calculateRow \<lparr>id_item = ''a1'', name_item = ''pen'', qty = Number (number 100 1),
        rate = Number (number 11 10), tp = Number (number 0 1), discount = Number (number 0 1),
        totalPerPiece = Number (number 0 1), totalAmount = Number (number 0 1)\<rparr>)
     = Number (number 9405 100)
   \<and> totalPerPiece (calculateRow \<lparr>id_item = ''a1'', name_item = ''pen'',
        qty = Number (number 100 1), rate = Number (number 11 10), tp = Number (number 0 1),
        discount = Number (number 0 1), totalPerPiece = Number (number 0 1),
        totalAmount = Number (number 0 1)\<rparr>)
     = Number (number 94 100)
   \<and> toFixed2 (fmul (number 94 100) (number 100 1)) = number 94 1
   \<and> number 9405 100 \<noteq> number 94 1"
  by code_simp

text \<open>
  At rate 1, quantity 3, no discount the three fields are 0.85, 0.85 and 2.56: the
  doubles \<open>1 * 0.855\<close> and \<open>0.855 * 3\<close> lie below 0.855 and 2.565.
\<close>

theorem calculateRow_rounds_unrounded_product_witness:
  "tp (calculateRow \<lparr>id_item = ''a1'', name_item = ''pen'', qty = Number (number 3 1),
        rate = Number (number 1 1), tp = Number (number 0 1), discount = Number (number 0 1),
        totalPerPiece = Number (number 0 1), totalAmount = Number (number 0 1)\<rparr>)
     = Number (number 85 100)
   \<and> totalPerPiece (calculateRow \<lparr>id_item = ''a1'', name_item = ''pen'',
        qty = Number (number 3 1), rate = Number (number 1 1), tp = Number (number 0 1),
        discount = Number (number 0 1), totalPerPiece = Number (number 0 1),
        totalAmount = Number (number 0 1)\<rparr>)
     = Number (number 85 100)
   \<and> totalAmount (calculateRow \<lparr>id_item = ''a1'', name_item = ''pen'',
        qty = Number (number 3 1), rate = Number (number 1 1), tp = Number (number 0 1),
        discount = Number (number 0 1), totalPerPiece = Number (number 0 1),
        totalAmount = Number (number 0 1)\<rparr>)
     = Number (number 256 100)"
proof -
  let ?i = "\<lparr>id_item = ''a1'', name_item = ''pen'', qty = Number (number 3 1),
        rate = Number (number 1 1), tp = Number (number 0 1), discount = Number (number 0 1),
        totalPerPiece = Number (number 0 1), totalAmount = Number (number 0 1)\<rparr>"
  let ?t = "if fgt (toNumber (rate ?i)) (number 0 1)
            then fmul (toNumber (rate ?i)) (number 855 1000) else number 0 1"
  let ?u = "if strictly_equal (discount ?i) (Number (number 0 1)) then ?t
            else fadd (fmul ?t (number 85 100))
                   (fmul (fmul ?t (number 85 100)) (fdiv (toNumber (discount ?i)) (number 100 1)))"
  have th: "tp (calculateRow ?i) = Number (toFixed2 ?t)
      \<and> totalPerPiece (calculateRow ?i) = Number (toFixed2 ?u)
      \<and> totalAmount (calculateRow ?i) = Number (toFixed2 (fmul ?u (toNumber (qty ?i))))"
    using calculateRow_rounds_unrounded_product [of ?i] unfolding Let_def .
  have a: "toFixed2 ?t = number 85 100" and b: "toFixed2 ?u = number 85 100"
    and c: "toFixed2 (fmul ?u (toNumber (qty ?i))) = number 256 100"
    by code_simp+
  show ?thesis
    using th unfolding a b c .
qed

text \<open>
  Claim C2, as the code has it. With a discount other than 0 the stored unit price is
  \<open>Number(x.toFixed(2))\<close> of the double \<open>base + base * (discount / 100)\<close>, where \<open>base\<close>
  is the double \<open>tradePrice * 0.85\<close> and \<open>tradePrice\<close> the trade price before its own
  rounding, \<open>rate * (1 - 0.145)\<close> for a positive rate and 0 otherwise. Each operation
  rounds to the nearest double, so the result is not always the rounding of the exact
  \<open>tradePrice * 0.85 * (1 + discount / 100)\<close>.
\<close>

theorem calculateRow_discounted_unit:
  assumes "\<not> strictly_equal (discount item) (Number (number 0 1))"
  shows "let tradePrice = (if fgt (toNumber (rate item)) (number 0 1)
                           then fmul (toNumber (rate item)) (number 855 1000) else number 0 1);
             base = fmul tradePrice (number 85 100)
         in totalPerPiece (calculateRow item) =
              Number (toFixed2
                (fadd base (fmul base (fdiv (toNumber (discount item)) (number 100 1)))))"
  using assms unfolding Let_def totalPerPiece_calculateRow by simp

text \<open>
  Claim C2 as the specification states it fails at rate 200, discount 10. The trade price
  is 171, and \<open>171 * 0.85 * (1 + 10 / 100) = 159.885\<close> rounds to 159.89, as does the
  formula evaluated on doubles in the order it is written. The code stores 159.88: the
  double \<open>base + base * 0.1\<close> lies below 159.885.
\<close>

theorem discounted_unit_formula_counterexample:
  "totalPerPiece (calculateRow \<lparr>id_item = ''a1'', name_item = ''pen'', qty = Number (number 1 1),
        rate = Number (number 200 1), tp = Number (number 0 1), discount = Number (number 10 1),
        totalPerPiece = Number (number 0 1), totalAmount = Number (number 0 1)\<rparr>)
     = Number (number 15988 100)
   \<and> fmul (number 200 1) (number 855 1000) = number 171 1
   \<and> \<lfloor>value_of (number 171 1) * (85 / 100) * (1 + value_of (number 10 1) / 100) * 100 + 1 / 2\<rfloor>
     = 15989
   \<and> toFixed2 (fmul (fmul (number 171 1) (number 85 100))
        (fadd (number 1 1) (fdiv (number 10 1) (number 100 1))))
     = number 15989 100
   \<and> number 15988 100 \<noteq> number 15989 100"
  by code_simp

theorem calculateRow_discounted_unit_witness:
  "\<not> strictly_equal (discount \<lparr>id_item = ''a1'', name_item = ''pen'', qty = Number (number 1 1),
        rate = Number (number 200 1), tp = Number (number 0 1),
        discount = Number (number (- 10) 1), totalPerPiece = Number (number 0 1),
        totalAmount = Number (number 0 1)\<rparr>) (Number (number 0 1))
   \<and> totalPerPiece (calculateRow \<lparr>id_item = ''a1'', name_item = ''pen'',
        qty = Number (number 1 1), rate = Number (number 200 1), tp = Number (number 0 1),
        discount = Number (number (- 10) 1), totalPerPiece = Number (number 0 1),
        totalAmount = Number (number 0 1)\<rparr>)
     = Number (number 13081 100)"
proof -
  let ?i = "\<lparr>id_item = ''a1'', name_item = ''pen'', qty = Number (number 1 1),
        rate = Number (number 200 1), tp = Number (number 0 1),
        discount = Number (number (- 10) 1), totalPerPiece = Number (number 0 1),
        totalAmount = Number (number 0 1)\<rparr>"
  let ?t = "if fgt (toNumber (rate ?i)) (number 0 1)
            then fmul (toNumber (rate ?i)) (number 855 1000) else number 0 1"
  have h: "\<not> strictly_equal (discount ?i) (Number (number 0 1))"
    by code_simp
  have "totalPerPiece (calculateRow ?i) =
      Number (toFixed2 (fadd (fmul ?t (number 85 100))
        (fmul (fmul ?t (number 85 100)) (fdiv (toNumber (discount ?i)) (number 100 1)))))"
    using calculateRow_discounted_unit [OF h] unfolding Let_def .
  also have "\<dots> = Number (number 13081 100)"
    by code_simp
  finally show ?thesis using h by (rule conjI [rotated])
qed

text \<open>
  Claim C3, as the code has it. A rate of 0 gives a trade price, a unit price and a line
  total of 0 when the discount and the quantity are finite numbers (a NaN or an infinite
  one can make the unit price or the line total NaN). A quantity of 0 gives a line total
  of 0 when the unit price is finite; an infinite unit price times 0 is NaN. The trade
  price and the unit price do not depend on the quantity.
\<close>

theorem calculateRow_zero:
  "(is_zero (toNumber (rate item))
      \<and> is_finite (toNumber (discount item)) \<and> encoded (toNumber (discount item))
      \<and> is_finite (toNumber (qty item)) \<longrightarrow>
      tp (calculateRow item) = Number (number 0 1)
      \<and> totalPerPiece (calculateRow item) = Number (number 0 1)
      \<and> totalAmount (calculateRow item) = Number (number 0 1))
   \<and> (is_zero (toNumber (qty item)) \<and> is_finite (toNumber (totalPerPiece (calculateRow item)))
        \<longrightarrow> totalAmount (calculateRow item) = Number (number 0 1))"
proof (intro conjI impI)
  let ?Z = "Finite False 0 (- 1074)"
  assume h: "is_zero (toNumber (rate item))
      \<and> is_finite (toNumber (discount item)) \<and> encoded (toNumber (discount item))
      \<and> is_finite (toNumber (qty item))"
  then obtain rs re where r: "toNumber (rate item) = Finite rs 0 re"
    by (cases "toNumber (rate item)") simp_all
  from h obtain qs qm qe where q: "toNumber (qty item) = Finite qs qm qe"
    by (cases "toNumber (qty item)") simp_all
  from h have "is_finite (fdiv (toNumber (discount item)) (number 100 1))"
    by (simp add: fdiv_hundred_finite)
  then obtain ps pm pe where p: "fdiv (toNumber (discount item)) (number 100 1) = Finite ps pm pe"
    by (cases "fdiv (toNumber (discount item)) (number 100 1)") simp_all
  have t: "(if fgt (toNumber (rate item)) (number 0 1)
            then fmul (toNumber (rate item)) (number 855 1000) else number 0 1) = ?Z"
    by (simp add: r number_zero)
  have u: "(let t = ?Z in if strictly_equal (discount item) (Number (number 0 1)) then t
           else fadd (fmul t (number 85 100))
                  (fmul (fmul t (number 85 100)) (fdiv (toNumber (discount item)) (number 100 1))))
        = ?Z"
    by (simp add: Let_def number_85_100 p)
  show "tp (calculateRow item) = Number (number 0 1)"
    unfolding tp_calculateRow t by (simp add: number_zero)
  show "totalPerPiece (calculateRow item) = Number (number 0 1)"
    unfolding totalPerPiece_calculateRow t u by (simp add: number_zero)
  show "totalAmount (calculateRow item) = Number (number 0 1)"
    unfolding totalAmount_calculateRow t u q by (simp add: number_zero)
next
  assume h: "is_zero (toNumber (qty item))
    \<and> is_finite (toNumber (totalPerPiece (calculateRow item)))"
  then obtain qs qe where q: "toNumber (qty item) = Finite qs 0 qe"
    by (cases "toNumber (qty item)") simp_all
  let ?u = "let t = (if fgt (toNumber (rate item)) (number 0 1)
                 then fmul (toNumber (rate item)) (number 855 1000) else number 0 1)
        in if strictly_equal (discount item) (Number (number 0 1)) then t
           else fadd (fmul t (number 85 100))
                  (fmul (fmul t (number 85 100)) (fdiv (toNumber (discount item)) (number 100 1)))"
  from h have "is_finite (toFixed2 ?u)"
    unfolding totalPerPiece_calculateRow by simp
  then have "is_finite ?u"
    by (rule is_finite_toFixed2)
  then obtain us um ue where u: "?u = Finite us um ue"
    by (cases ?u) simp_all
  show "totalAmount (calculateRow item) = Number (number 0 1)"
    unfolding totalAmount_calculateRow u q by (simp add: number_zero)
qed

text \<open>
  Claim C3 as the specification states it fails at quantity 0, rate 100: the trade price
  and the unit price are 85.50, not 0.
\<close>

theorem zero_quantity_counterexample:
  "is_zero (toNumber (qty \<lparr>id_item = ''a1'', name_item = ''pen'', qty = Number (number 0 1),
        rate = Number (number 100 1), tp = Number (number 0 1), discount = Number (number 0 1),
        totalPerPiece = Number (number 0 1), totalAmount = Number (number 0 1)\<rparr>))
   \<and> tp (calculateRow \<lparr>id_item = ''a1'', name_item = ''pen'', qty = Number (number 0 1),
        rate = Number (number 100 1), tp = Number (number 0 1), discount = Number (number 0 1),
        totalPerPiece = Number (number 0 1), totalAmount = Number (number 0 1)\<rparr>)
     = Number (number 855 10)
   \<and> totalPerPiece (calculateRow \<lparr>id_item = ''a1'', name_item = ''pen'',
        qty = Number (number 0 1), rate = Number (number 100 1), tp = Number (number 0 1),
        discount = Number (number 0 1), totalPerPiece = Number (number 0 1),
        totalAmount = Number (number 0 1)\<rparr>)
     = Number (number 855 10)
   \<and> \<not> is_zero (number 855 10)"
  by code_simp

theorem calculateRow_zero_witness:
  "is_zero (toNumber (rate \<lparr>id_item = ''a1'', name_item = ''pen'', qty = Number (number 5 1),
        rate = Number (number 0 1), tp = Number (number 3 1),
        discount = Number (number (- 10) 1), totalPerPiece = Number (number 3 1),
        totalAmount = Number (number 15 1)\<rparr>))
   \<and> tp (calculateRow \<lparr>id_item = ''a1'', name_item = ''pen'', qty = Number (number 5 1),
        rate = Number (number 0 1), tp = Number (number 3 1),
        discount = Number (number (- 10) 1), totalPerPiece = Number (number 3 1),
        totalAmount = Number (number 15 1)\<rparr>) = Number (number 0 1)
   \<and> totalPerPiece (calculateRow \<lparr>id_item = ''a1'', name_item = ''pen'',
        qty = Number (number 5 1), rate = Number (number 0 1), tp = Number (number 3 1),
        discount = Number (number (- 10) 1), totalPerPiece = Number (number 3 1),
        totalAmount = Number (number 15 1)\<rparr>) = Number (number 0 1)
   \<and> totalAmount (calculateRow \<lparr>id_item = ''a1'', name_item = ''pen'',
        qty = Number (number 5 1), rate = Number (number 0 1), tp = Number (number 3 1),
        discount = Number (number (- 10) 1), totalPerPiece = Number (number 3 1),
        totalAmount = Number (number 15 1)\<rparr>) = Number (number 0 1)
   \<and> is_zero (toNumber (qty \<lparr>id_item = ''a2'', name_item = ''ink'', qty = Number (number 0 1),
        rate = Number (number 100 1), tp = Number (number 855 10),
        discount = Number (number 0 1), totalPerPiece = Number (number 855 10),
        totalAmount = Number (number 171 1)\<rparr>))
   \<and> totalAmount (calculateRow \<lparr>id_item = ''a2'', name_item = ''ink'',
        qty = Number (number 0 1), rate = Number (number 100 1), tp = Number (number 855 10),
        discount = Number (number 0 1), totalPerPiece = Number (number 855 10),
        totalAmount = Number (number 171 1)\<rparr>) = Number (number 0 1)"
proof -
  let ?a = "\<lparr>id_item = ''a1'', name_item = ''pen'', qty = Number (number 5 1),
        rate = Number (number 0 1), tp = Number (number 3 1),
        discount = Number (number (- 10) 1), totalPerPiece = Number (number 3 1),
        totalAmount = Number (number 15 1)\<rparr>"
  let ?b = "\<lparr>id_item = ''a2'', name_item = ''ink'', qty = Number (number 0 1),
        rate = Number (number 100 1), tp = Number (number 855 10),
        discount = Number (number 0 1), totalPerPiece = Number (number 855 10),
        totalAmount = Number (number 171 1)\<rparr>"
  have a: "is_zero (toNumber (rate ?a))
      \<and> is_finite (toNumber (discount ?a)) \<and> encoded (toNumber (discount ?a))
      \<and> is_finite (toNumber (qty ?a))"
    by code_simp
  have b: "is_zero (toNumber (qty ?b)) \<and> is_finite (toNumber (totalPerPiece (calculateRow ?b)))"
    by code_simp
  from a calculateRow_zero [of ?a]
  have "tp (calculateRow ?a) = Number (number 0 1)
      \<and> totalPerPiece (calculateRow ?a) = Number (number 0 1)
      \<and> totalAmount (calculateRow ?a) = Number (number 0 1)"
    by blast
  moreover from b calculateRow_zero [of ?b]
  have "totalAmount (calculateRow ?b) = Number (number 0 1)"
    by blast
  ultimately show ?thesis
    using a b by blast
qed

text \<open>
  The unit price can be infinite: at the rate \<open>1e308\<close> with a discount of 1000 it
  overflows, and the line total at quantity 0 is NaN.
\<close>

lemma calculateRow_overflow:
  "calculateRow \<lparr>id_item = ''a1'', name_item = ''pen'', qty = Number (number 0 1),
      rate = Number (Finite False 5010420900022432 971), tp = Number (number 0 1),
      discount = Number (number 1000 1), totalPerPiece = Number (number 0 1),
      totalAmount = Number (number 0 1)\<rparr>
   = \<lparr>id_item = ''a1'', name_item = ''pen'', qty = Number (number 0 1),
      rate = Number (Finite False 5010420900022432 971),
      tp = Number (Finite False 8567819739038359 970),
      discount = Number (number 1000 1), totalPerPiece = Number (Infinity False),
      totalAmount = Number NaN\<rparr>"
  by code_simp

section \<open>Properties of the row operations\<close>

lemma length_assign_index: "length xs \<le> length (assign_index xs i v)"
proof -
  have "length xs \<le> Suc (nat i)" if "\<not> i < int (length xs)"
    using that by linarith
  then show ?thesis by (simp add: assign_index_def)
qed

lemma splice_js_insert:
  "splice_js xs start 0 new =
     take (nat (if start < 0 then max (int (length xs) + start) 0 else min start (int (length xs)))) xs
     @ new
     @ drop (nat (if start < 0 then max (int (length xs) + start) 0 else min start (int (length xs)))) xs"
  by (simp add: splice_js_def Let_def)

lemma length_splice_js_insert: "length (splice_js xs start 0 new) = length xs + length new"
  unfolding splice_js_insert by (simp add: min_def max_def)

lemma length_splice_js_delete: "length xs - 1 \<le> length (splice_js xs start 1 [])"
  by (simp add: splice_js_def Let_def min_def max_def)

lemma length_updateItem: "length xs \<le> length (updateItem index upd xs)"
  by (simp add: updateItem_def Let_def length_assign_index)

lemma length_addNewRow: "length (addNewRow newId xs) = length xs + 1"
  by (simp add: addNewRow_def)

lemma length_duplicateRow: "length (duplicateRow index newId xs) = length xs + 1"
  by (simp add: duplicateRow_def Let_def length_splice_js_insert)

lemma length_deleteRow: "1 \<le> length xs \<Longrightarrow> 1 \<le> length (deleteRow index xs)"
proof (cases "1 < length xs")
  case True
  then have "1 \<le> length xs - 1" by simp
  also have "\<dots> \<le> length (splice_js xs index 1 [])"
    by (rule length_splice_js_delete)
  finally show ?thesis using True by (simp add: deleteRow_def)
next
  case False
  assume "1 \<le> length xs"
  with False show ?thesis by (simp add: deleteRow_def)
qed

lemma perform_keeps_a_row:
  "1 \<le> length (items_st st) \<Longrightarrow> 1 \<le> length (items_st (perform st a))"
proof (cases a)
  case (UpdateItem index upd)
  assume "1 \<le> length (items_st st)"
  also have "\<dots> \<le> length (updateItem index upd (items_st st))"
    by (rule length_updateItem)
  finally show ?thesis using UpdateItem by simp
next
  case (DeleteRow index)
  assume "1 \<le> length (items_st st)"
  then show ?thesis using DeleteRow by (simp add: length_deleteRow del: One_nat_def)
qed (simp_all add: length_addNewRow length_duplicateRow)

lemma foldl_perform_keeps_a_row:
  "1 \<le> length (items_st st) \<Longrightarrow> 1 \<le> length (items_st (foldl perform st acts))"
proof (induction acts arbitrary: st)
  case Nil
  then show ?case by simp
next
  case (Cons a acts)
  from Cons.prems have "1 \<le> length (items_st (perform st a))"
    by (rule perform_keeps_a_row)
  then have "1 \<le> length (items_st (foldl perform (perform st a) acts))"
    by (rule Cons.IH)
  then show ?case by simp
qed

lemma typed_map_Item: "typed (map Item xs) = Some xs"
  by (induction xs) simp_all

text \<open>
  Claim C4, as the code has it. \<open>updateItem\<close> has no check of the index and no path that
  raises. With an index from the length of the array to \<open>2\<^sup>3\<^sup>2 - 2\<close> the array grows to
  \<open>index + 1\<close> slots: the slots it had stay as they are, and none of the new ones holds a
  line item. With a negative index, or one from \<open>2\<^sup>3\<^sup>2 - 1\<close> on, the sequence of slots
  is returned as it was.
\<close>

theorem updateItem_out_of_range:
  "(index < 0 \<or> 4294967295 \<le> index \<longrightarrow> updateItem index upd xs = xs)
   \<and> (int (length xs) \<le> index \<and> index < 4294967295 \<longrightarrow>
        updateItem index upd xs = xs @ replicate (nat index - length xs + 1) Untracked)"
  by (auto simp: updateItem_def Let_def at_index_def assign_index_def replicate_append_same)

text \<open>
  Claim C4 as the specification states it fails on an invoice of one row at index 1:
  nothing is signalled and the array has two slots afterwards.
\<close>

theorem updateItem_out_of_range_counterexample:
  "updateItem 1 (Set_name ''pen'')
     [Item \<lparr>id_item = ''k3x9q2a'', name_item = [], qty = Number (number 0 1),
             rate = Number (number 0 1), tp = Number (number 0 1),
             discount = Number (number 0 1), totalPerPiece = Number (number 0 1),
             totalAmount = Number (number 0 1)\<rparr>]
   = [Item \<lparr>id_item = ''k3x9q2a'', name_item = [], qty = Number (number 0 1),
             rate = Number (number 0 1), tp = Number (number 0 1),
             discount = Number (number 0 1), totalPerPiece = Number (number 0 1),
             totalAmount = Number (number 0 1)\<rparr>, Untracked]
   \<and> updateItem 1 (Set_name ''pen'')
     [Item \<lparr>id_item = ''k3x9q2a'', name_item = [], qty = Number (number 0 1),
             rate = Number (number 0 1), tp = Number (number 0 1),
             discount = Number (number 0 1), totalPerPiece = Number (number 0 1),
             totalAmount = Number (number 0 1)\<rparr>]
   \<noteq> [Item \<lparr>id_item = ''k3x9q2a'', name_item = [], qty = Number (number 0 1),
             rate = Number (number 0 1), tp = Number (number 0 1),
             discount = Number (number 0 1), totalPerPiece = Number (number 0 1),
             totalAmount = Number (number 0 1)\<rparr>]"
  by (simp add: updateItem_def Let_def at_index_def assign_index_def)

theorem updateItem_out_of_range_witness:
  "((- 1 :: int) < 0 \<or> 4294967295 \<le> (- 1 :: int))
   \<and> updateItem (- 1) (Set_qty (number 5 1))
        [Item \<lparr>id_item = ''k3x9q2a'', name_item = ''pen'', qty = Number (number 2 1),
                rate = Number (number 100 1), tp = Number (number 855 10),
                discount = Number (number 0 1), totalPerPiece = Number (number 855 10),
                totalAmount = Number (number 171 1)\<rparr>]
      = [Item \<lparr>id_item = ''k3x9q2a'', name_item = ''pen'', qty = Number (number 2 1),
                rate = Number (number 100 1), tp = Number (number 855 10),
                discount = Number (number 0 1), totalPerPiece = Number (number 855 10),
                totalAmount = Number (number 171 1)\<rparr>]
   \<and> updateItem 4294967295 (Set_qty (number 5 1))
        [Item \<lparr>id_item = ''k3x9q2a'', name_item = ''pen'', qty = Number (number 2 1),
                rate = Number (number 100 1), tp = Number (number 855 10),
                discount = Number (number 0 1), totalPerPiece = Number (number 855 10),
                totalAmount = Number (number 171 1)\<rparr>]
      = [Item \<lparr>id_item = ''k3x9q2a'', name_item = ''pen'', qty = Number (number 2 1),
                rate = Number (number 100 1), tp = Number (number 855 10),
                discount = Number (number 0 1), totalPerPiece = Number (number 855 10),
                totalAmount = Number (number 171 1)\<rparr>]
   \<and> int (length [Item \<lparr>id_item = ''k3x9q2a'', name_item = ''pen'', qty = Number (number 2 1),
                rate = Number (number 100 1), tp = Number (number 855 10),
                discount = Number (number 0 1), totalPerPiece = Number (number 855 10),
                totalAmount = Number (number 171 1)\<rparr>]) \<le> 3
   \<and> (3 :: int) < 4294967295
   \<and> updateItem 3 (Set_qty (number 5 1))
        [Item \<lparr>id_item = ''k3x9q2a'', name_item = ''pen'', qty = Number (number 2 1),
                rate = Number (number 100 1), tp = Number (number 855 10),
                discount = Number (number 0 1), totalPerPiece = Number (number 855 10),
                totalAmount = Number (number 171 1)\<rparr>]
      = [Item \<lparr>id_item = ''k3x9q2a'', name_item = ''pen'', qty = Number (number 2 1),
                rate = Number (number 100 1), tp = Number (number 855 10),
                discount = Number (number 0 1), totalPerPiece = Number (number 855 10),
                totalAmount = Number (number 171 1)\<rparr>,
         Untracked, Untracked, Untracked]"
proof -
  let ?xs = "[Item \<lparr>id_item = ''k3x9q2a'', name_item = ''pen'', qty = Number (number 2 1),
                rate = Number (number 100 1), tp = Number (number 855 10),
                discount = Number (number 0 1), totalPerPiece = Number (number 855 10),
                totalAmount = Number (number 171 1)\<rparr>]"
  show ?thesis
    using
      updateItem_out_of_range [of "- 1" "Set_qty (number 5 1)" ?xs]
      updateItem_out_of_range [of 4294967295 "Set_qty (number 5 1)" ?xs]
      updateItem_out_of_range [of 3 "Set_qty (number 5 1)" ?xs]
    by (simp add: numeral_3_eq_3)
qed

text \<open>
  Claim C6. \<open>deleteRow\<close> on an array of one slot returns it as it is, whatever the index,
  and after any sequence of actions on a new invoice, which starts with one blank row, the
  array of items has at least one slot.
\<close>

theorem deleteRow_keeps_last_row:
  "deleteRow index [x] = [x]
   \<and> 1 \<le> length (items_st (run (initialise username None today newId ls) acts))"
proof
  show "deleteRow index [x] = [x]"
    by (simp add: deleteRow_def)
  have "length (items_st (initialise username None today newId ls)) = 1"
    by (simp add: initialise_def addNewRow_def)
  then show "1 \<le> length (items_st (run (initialise username None today newId ls) acts))"
    unfolding run_def by (intro foldl_perform_keeps_a_row) simp
qed

theorem deleteRow_keeps_last_row_witness:
  "deleteRow 0 [Item \<lparr>id_item = ''k3x9q2a'', name_item = [], qty = Number (number 0 1),
             rate = Number (number 0 1), tp = Number (number 0 1),
             discount = Number (number 0 1), totalPerPiece = Number (number 0 1),
             totalAmount = Number (number 0 1)\<rparr>]
   = [Item \<lparr>id_item = ''k3x9q2a'', name_item = [], qty = Number (number 0 1),
             rate = Number (number 0 1), tp = Number (number 0 1),
             discount = Number (number 0 1), totalPerPiece = Number (number 0 1),
             totalAmount = Number (number 0 1)\<rparr>]
   \<and> 1 \<le> length (items_st (run (initialise ''ali'' None ''2026-03-01'' ''k3x9q2a'' Map.empty)
        [DeleteRow 0, DuplicateRow 0 ''m4p7w1c'', DeleteRow 1, DeleteRow (- 1), DeleteRow 0]))"
  by (rule deleteRow_keeps_last_row)

text \<open>
  Claim C7, as the code has it. For an index in range whose slot holds a line item,
  \<open>duplicateRow\<close> inserts right after it a copy that differs from it in the identifier
  alone, which is the one \<open>generateId()\<close> returned; the slot at the index and all others
  keep their content and their order. The identifier is a random string that the code
  compares with no other, so it differs from the source's when the generator returns a
  different one.
\<close>

theorem duplicateRow_in_range:
  assumes "0 \<le> index" and "index < int (length xs)" and "xs ! nat index = Item item"
  shows "duplicateRow index newId xs =
           take (nat index + 1) xs @ [Item (item\<lparr>id_item := newId\<rparr>)] @ drop (nat index + 1) xs
         \<and> duplicateRow index newId xs ! nat index = Item item
         \<and> duplicateRow index newId xs ! (nat index + 1) = Item (item\<lparr>id_item := newId\<rparr>)"
proof -
  from assms(1,2) have n: "nat index < length xs" by linarith
  from assms(1,2) have s: "nat (min (index + 1) (int (length xs))) = nat index + 1"
    by linarith
  from assms have a: "at_index xs index = Item item"
    by (simp add: at_index_def)
  have eq: "duplicateRow index newId xs =
      take (nat index + 1) xs @ [Item (item\<lparr>id_item := newId\<rparr>)] @ drop (nat index + 1) xs"
    using assms(1) by (simp add: duplicateRow_def Let_def a splice_js_insert s)
  have "(take (nat index + 1) xs @ [Item (item\<lparr>id_item := newId\<rparr>)] @ drop (nat index + 1) xs)
          ! nat index = xs ! nat index"
    using n by (simp add: nth_append)
  moreover have "(take (nat index + 1) xs @ [Item (item\<lparr>id_item := newId\<rparr>)]
          @ drop (nat index + 1) xs) ! (nat index + 1) = Item (item\<lparr>id_item := newId\<rparr>)"
    using n by (simp add: nth_append)
  ultimately show ?thesis
    using eq assms(3) by simp
qed

text \<open>
  Claim C7 as the specification states it fails when \<open>generateId()\<close> returns the
  identifier the source row already has: the copy is then equal to the source, identifier
  included.
\<close>

theorem duplicateRow_same_id_counterexample:
  "duplicateRow 0 ''k3x9q2a''
     [Item \<lparr>id_item = ''k3x9q2a'', name_item = ''pen'', qty = Number (number 2 1),
             rate = Number (number 100 1), tp = Number (number 855 10),
             discount = Number (number 0 1), totalPerPiece = Number (number 855 10),
             totalAmount = Number (number 171 1)\<rparr>]
   = [Item \<lparr>id_item = ''k3x9q2a'', name_item = ''pen'', qty = Number (number 2 1),
             rate = Number (number 100 1), tp = Number (number 855 10),
             discount = Number (number 0 1), totalPerPiece = Number (number 855 10),
             totalAmount = Number (number 171 1)\<rparr>,
      Item \<lparr>id_item = ''k3x9q2a'', name_item = ''pen'', qty = Number (number 2 1),
             rate = Number (number 100 1), tp = Number (number 855 10),
             discount = Number (number 0 1), totalPerPiece = Number (number 855 10),
             totalAmount = Number (number 171 1)\<rparr>]"
  by (simp add: duplicateRow_def Let_def at_index_def splice_js_def)

theorem duplicateRow_in_range_witness:
  "(0 :: int) \<le> 0
   \<and> 0 < int (length
        [Item \<lparr>id_item = ''k3x9q2a'', name_item = ''pen'', qty = Number (number 2 1),
                rate = Number (number 100 1), tp = Number (number 855 10),
                discount = Number (number 0 1), totalPerPiece = Number (number 855 10),
                totalAmount = Number (number 171 1)\<rparr>,
         Item \<lparr>id_item = ''b7t0v5e'', name_item = ''ink'', qty = Number (number 0 1),
                rate = Number (number 0 1), tp = Number (number 0 1),
                discount = Number (number 0 1), totalPerPiece = Number (number 0 1),
                totalAmount = Number (number 0 1)\<rparr>])
   \<and> duplicateRow 0 ''m4p7w1c''
        [Item \<lparr>id_item = ''k3x9q2a'', name_item = ''pen'', qty = Number (number 2 1),
                rate = Number (number 100 1), tp = Number (number 855 10),
                discount = Number (number 0 1), totalPerPiece = Number (number 855 10),
                totalAmount = Number (number 171 1)\<rparr>,
         Item \<lparr>id_item = ''b7t0v5e'', name_item = ''ink'', qty = Number (number 0 1),
                rate = Number (number 0 1), tp = Number (number 0 1),
                discount = Number (number 0 1), totalPerPiece = Number (number 0 1),
                totalAmount = Number (number 0 1)\<rparr>]
      = [Item \<lparr>id_item = ''k3x9q2a'', name_item = ''pen'', qty = Number (number 2 1),
                rate = Number (number 100 1), tp = Number (number 855 10),
                discount = Number (number 0 1), totalPerPiece = Number (number 855 10),
                totalAmount = Number (number 171 1)\<rparr>,
         Item \<lparr>id_item = ''m4p7w1c'', name_item = ''pen'', qty = Number (number 2 1),
                rate = Number (number 100 1), tp = Number (number 855 10),
                discount = Number (number 0 1), totalPerPiece = Number (number 855 10),
                totalAmount = Number (number 171 1)\<rparr>,
         Item \<lparr>id_item = ''b7t0v5e'', name_item = ''ink'', qty = Number (number 0 1),
                rate = Number (number 0 1), tp = Number (number 0 1),
                discount = Number (number 0 1), totalPerPiece = Number (number 0 1),
                totalAmount = Number (number 0 1)\<rparr>]"
proof -
  let ?a = "\<lparr>id_item = ''k3x9q2a'', name_item = ''pen'', qty = Number (number 2 1),
                rate = Number (number 100 1), tp = Number (number 855 10),
                discount = Number (number 0 1), totalPerPiece = Number (number 855 10),
                totalAmount = Number (number 171 1)\<rparr>"
  let ?b = "\<lparr>id_item = ''b7t0v5e'', name_item = ''ink'', qty = Number (number 0 1),
                rate = Number (number 0 1), tp = Number (number 0 1),
                discount = Number (number 0 1), totalPerPiece = Number (number 0 1),
                totalAmount = Number (number 0 1)\<rparr>"
  have h1: "(0 :: int) \<le> 0" and h2: "0 < int (length [Item ?a, Item ?b])"
    and h3: "[Item ?a, Item ?b] ! nat 0 = Item ?a"
    by simp_all
  show ?thesis
    using duplicateRow_in_range [OF h1 h2 h3, of "''m4p7w1c''"] by simp
qed

section \<open>Properties of the totals\<close>

text \<open>
  Claim C8, as the code has it. The grand total is what adding the line totals to 0 one
  after the other gives, from the first item to the last, each addition being the one of
  doubles; the amount paid is the same over the amounts of the payments; and the
  remaining balance is the difference of the two as doubles, as it comes: below zero when
  more was paid than is due.
\<close>

theorem totals_accumulate_left_to_right:
  "grandTotal [] = number 0 1
   \<and> grandTotal (its @ [item]) = fadd (grandTotal its) (toNumber (totalAmount item))
   \<and> totalPaid [] = number 0 1
   \<and> totalPaid (ps @ [p]) = fadd (totalPaid ps) (toNumber (amount p))
   \<and> remainingBalance its ps = fsub (grandTotal its) (totalPaid ps)"
  by (simp add: grandTotal_def totalPaid_def remainingBalance_def)

text \<open>
  Claim C8 as the specification states it fails on the line totals 94.05 and 65.41: the
  grand total is the double just below the double 159.46 (it prints as
  159.45999999999998) and has not the value of the sum of the two; with a payment
  of 50 the balance is the double just below the double 109.46. The payments 0.1, 0.2 and
  0.3 give one amount paid in this order and another in the opposite order, which a sum
  does not.
\<close>

theorem totals_exact_sum_counterexample:
  "grandTotal
     [\<lparr>id_item = ''a1'', name_item = ''pen'', qty = Number (number 100 1),
        rate = Number (number 11 10), tp = Number (number 94 100),
        discount = Number (number 0 1), totalPerPiece = Number (number 94 100),
        totalAmount = Number (number 9405 100)\<rparr>,
      \<lparr>id_item = ''a2'', name_item = ''ink'', qty = Number (number 1 1),
        rate = Number (number 100 1), tp = Number (number 855 10),
        discount = Number (number (- 10) 1), totalPerPiece = Number (number 6541 100),
        totalAmount = Number (number 6541 100)\<rparr>]
     = Finite False 5610499973285150 (- 45)
   \<and> number 15946 100 = Finite False 5610499973285151 (- 45)
   \<and> value_of (Finite False 5610499973285150 (- 45))
       \<noteq> value_of (number 9405 100) + value_of (number 6541 100)
   \<and> remainingBalance
     [\<lparr>id_item = ''a1'', name_item = ''pen'', qty = Number (number 100 1),
        rate = Number (number 11 10), tp = Number (number 94 100),
        discount = Number (number 0 1), totalPerPiece = Number (number 94 100),
        totalAmount = Number (number 9405 100)\<rparr>,
      \<lparr>id_item = ''a2'', name_item = ''ink'', qty = Number (number 1 1),
        rate = Number (number 100 1), tp = Number (number 855 10),
        discount = Number (number (- 10) 1), totalPerPiece = Number (number 6541 100),
        totalAmount = Number (number 6541 100)\<rparr>]
     [\<lparr>id_pay = ''c1'', narration = ''cash'', amount = Number (number 50 1)\<rparr>]
     = Finite False 7702562737687100 (- 46)
   \<and> number 10946 100 = Finite False 7702562737687101 (- 46)
   \<and> totalPaid
     [\<lparr>id_pay = ''c1'', narration = ''cash'', amount = Number (number 1 10)\<rparr>,
      \<lparr>id_pay = ''c2'', narration = ''cheque'', amount = Number (number 2 10)\<rparr>,
      \<lparr>id_pay = ''c3'', narration = ''transfer'', amount = Number (number 3 10)\<rparr>]
     \<noteq> totalPaid
     [\<lparr>id_pay = ''c3'', narration = ''transfer'', amount = Number (number 3 10)\<rparr>,
      \<lparr>id_pay = ''c2'', narration = ''cheque'', amount = Number (number 2 10)\<rparr>,
      \<lparr>id_pay = ''c1'', narration = ''cash'', amount = Number (number 1 10)\<rparr>]"
  by code_simp

theorem totals_accumulate_left_to_right_witness:
  "remainingBalance
        [\<lparr>id_item = ''k3x9q2a'', name_item = ''pen'', qty = Number (number 2 1),
           rate = Number (number 100 1), tp = Number (number 855 10),
           discount = Number (number 0 1), totalPerPiece = Number (number 855 10),
           totalAmount = Number (number 171 1)\<rparr>]
        [\<lparr>id_pay = ''c1'', narration = ''cash'', amount = Number (number 50 1)\<rparr>,
         \<lparr>id_pay = ''c2'', narration = ''cheque'', amount = Number (number 30 1)\<rparr>]
       = number 91 1
   \<and> remainingBalance
        [\<lparr>id_item = ''k3x9q2a'', name_item = ''pen'', qty = Number (number 2 1),
           rate = Number (number 100 1), tp = Number (number 855 10),
           discount = Number (number 0 1), totalPerPiece = Number (number 855 10),
           totalAmount = Number (number 171 1)\<rparr>]
        [\<lparr>id_pay = ''c3'', narration = ''transfer'', amount = Number (number 200 1)\<rparr>]
       = number (- 29) 1"
proof -
  let ?i = "\<lparr>id_item = ''k3x9q2a'', name_item = ''pen'', qty = Number (number 2 1),
        rate = Number (number 100 1), tp = Number (number 855 10),
        discount = Number (number 0 1), totalPerPiece = Number (number 855 10),
        totalAmount = Number (number 171 1)\<rparr>"
  let ?c1 = "\<lparr>id_pay = ''c1'', narration = ''cash'', amount = Number (number 50 1)\<rparr>"
  let ?c2 = "\<lparr>id_pay = ''c2'', narration = ''cheque'', amount = Number (number 30 1)\<rparr>"
  let ?c3 = "\<lparr>id_pay = ''c3'', narration = ''transfer'', amount = Number (number 200 1)\<rparr>"
  have "remainingBalance [?i] [?c1, ?c2] = fsub (grandTotal [?i]) (totalPaid [?c1, ?c2])"
    using totals_accumulate_left_to_right [of "[?i]" ?i "[?c1, ?c2]" ?c2] by blast
  also have "\<dots> = number 91 1"
    by code_simp
  finally have a: "remainingBalance [?i] [?c1, ?c2] = number 91 1" .
  have "remainingBalance [?i] [?c3] = fsub (grandTotal [?i]) (totalPaid [?c3])"
    using totals_accumulate_left_to_right [of "[?i]" ?i "[?c3]" ?c2] by blast
  also have "\<dots> = number (- 29) 1"
    by code_simp
  finally have b: "remainingBalance [?i] [?c3] = number (- 29) 1" .
  from a b show ?thesis by (rule conjI)
qed

section \<open>Properties of the storage\<close>

lemma json_number_idem: "json_number (json_number x) = json_number x"
proof (cases x)
  case (Number d)
  then show ?thesis by (cases d) auto
qed simp

lemma json_number_as_is: "written_as_is x \<Longrightarrow> json_number x = x"
proof (cases x)
  case (Number d)
  assume "written_as_is x"
  with Number show ?thesis by (cases d) auto
qed simp

lemma json_number_examples:
  "json_number (Number (number 0 1)) = Number (number 0 1)"
  "json_number (Number (number 1000 1)) = Number (number 1000 1)"
  "json_number (Number (number 2 1)) = Number (number 2 1)"
  "json_number (Number (number 50 1)) = Number (number 50 1)"
  "json_number (Number (number 100 1)) = Number (number 100 1)"
  "json_number (Number (number 121 1)) = Number (number 121 1)"
  "json_number (Number (number 171 1)) = Number (number 171 1)"
  "json_number (Number (number 855 10)) = Number (number 855 10)"
  by code_simp+

lemma json_InvoiceItem_idem: "json_InvoiceItem (json_InvoiceItem item) = json_InvoiceItem item"
  by (simp add: json_InvoiceItem_def json_number_idem)

lemma json_PaymentRow_idem: "json_PaymentRow (json_PaymentRow p) = json_PaymentRow p"
  by (simp add: json_PaymentRow_def json_number_idem)

lemma json_Invoice_idem: "json_Invoice (json_Invoice invoice) = json_Invoice invoice"
  by (simp add: json_Invoice_def json_number_idem json_InvoiceItem_idem json_PaymentRow_idem
      comp_def)

lemma id_inv_json_Invoice: "id_inv (json_Invoice invoice) = id_inv invoice"
  by (simp add: json_Invoice_def)

lemma createdAt_json_Invoice: "createdAt (json_Invoice invoice) = createdAt invoice"
  by (simp add: json_Invoice_def)

lemma json_Invoice_safe:
  assumes "json_safe invoice"
  shows "json_Invoice invoice = invoice"
proof -
  have "map json_InvoiceItem (items invoice) = items invoice"
    using assms
    by (intro map_idI) (simp add: json_safe_def list_all_iff json_InvoiceItem_def json_number_as_is)
  moreover have "map json_PaymentRow (payments invoice) = payments invoice"
    using assms
    by (intro map_idI) (simp add: json_safe_def list_all_iff json_PaymentRow_def json_number_as_is)
  ultimately show ?thesis
    using assms by (simp add: json_Invoice_def json_safe_def json_number_as_is)
qed

lemma getInvoices_empty: "getInvoices username Map.empty = []"
  by (simp add: getInvoices_def)

lemma getInvoices_parsed: "map json_Invoice (getInvoices username ls) = getInvoices username ls"
proof (cases "ls (DATA_PREFIX @ username)")
  case None
  then show ?thesis by (simp add: getInvoices_def)
next
  case (Some data)
  then show ?thesis
    by (cases data) (simp add: getInvoices_def json_Invoice_idem)
qed

lemma getInvoices_saveInvoice:
  "getInvoices username (saveInvoice username invoice ls) =
     (case findIndex (\<lambda>inv. id_inv inv = id_inv invoice) (getInvoices username ls) of
        Some existingIndex \<Rightarrow> (getInvoices username ls)[existingIndex := json_Invoice invoice]
      | None \<Rightarrow> getInvoices username ls @ [json_Invoice invoice])"
proof -
  let ?old = "getInvoices username ls"
  have "getInvoices username (saveInvoice username invoice ls) =
      map json_Invoice
        (case findIndex (\<lambda>inv. id_inv inv = id_inv invoice) ?old of
           Some existingIndex \<Rightarrow> ?old[existingIndex := invoice]
         | None \<Rightarrow> ?old @ [invoice])"
    by (simp add: saveInvoice_def Let_def getInvoices_def [of username "_(_ \<mapsto> _)"]
        JSON_stringify_def json_Invoice_idem)
  also have "\<dots> =
      (case findIndex (\<lambda>inv. id_inv inv = id_inv invoice) ?old of
         Some existingIndex \<Rightarrow> (map json_Invoice ?old)[existingIndex := json_Invoice invoice]
       | None \<Rightarrow> map json_Invoice ?old @ [json_Invoice invoice])"
    by (simp add: map_update split: option.split)
  finally show ?thesis
    by (simp only: getInvoices_parsed)
qed

lemma getInvoices_saveInvoice_other:
  "username' \<noteq> username \<Longrightarrow>
   getInvoices username' (saveInvoice username invoice ls) = getInvoices username' ls"
  by (simp add: saveInvoice_def getInvoices_def Let_def)

lemma findIndex_None: "findIndex P xs = None \<longleftrightarrow> (\<forall>x\<in>set xs. \<not> P x)"
  by (induction xs) auto

lemma findIndex_Some:
  "findIndex P xs = Some i \<longleftrightarrow> i < length xs \<and> P (xs ! i) \<and> (\<forall>j<i. \<not> P (xs ! j))"
proof (induction xs arbitrary: i)
  case Nil
  then show ?case by simp
next
  case (Cons x xs)
  show ?case
  proof (cases "P x")
    case True
    then show ?thesis by (cases i) auto
  next
    case False
    show ?thesis
    proof (cases i)
      case 0
      with False show ?thesis by auto
    next
      case (Suc k)
      have "(\<forall>j<Suc k. \<not> P ((x # xs) ! j)) \<longleftrightarrow> (\<forall>j<k. \<not> P (xs ! j))"
        using False by (auto simp: less_Suc_eq_0_disj)
      with False Suc Cons.IH [of k] show ?thesis by auto
    qed
  qed
qed

lemma find_first:
  "i < length xs \<Longrightarrow> P (xs ! i) \<Longrightarrow> \<forall>j<i. \<not> P (xs ! j) \<Longrightarrow> find P xs = Some (xs ! i)"
proof (induction xs arbitrary: i)
  case Nil
  then show ?case by simp
next
  case (Cons x xs)
  show ?case
  proof (cases i)
    case 0
    with Cons.prems show ?thesis by simp
  next
    case (Suc k)
    with Cons.prems have "\<not> P x" by auto
    moreover have "find P xs = Some (xs ! k)"
      using Cons.prems Suc by (intro Cons.IH) auto
    ultimately show ?thesis using Suc by simp
  qed
qed

lemma find_appended:
  "\<forall>x\<in>set xs. \<not> P x \<Longrightarrow> P y \<Longrightarrow> find P (xs @ [y]) = Some y"
  by (induction xs) simp_all

lemma find_saved_invoice:
  "find (\<lambda>i. id_inv i = id_inv invoice)
     (getInvoices username (saveInvoice username invoice ls)) = Some (json_Invoice invoice)"
proof (cases "findIndex (\<lambda>inv. id_inv inv = id_inv invoice) (getInvoices username ls)")
  case None
  then have "\<forall>x\<in>set (getInvoices username ls). id_inv x \<noteq> id_inv invoice"
    by (simp add: findIndex_None)
  then have "find (\<lambda>i. id_inv i = id_inv invoice)
      (getInvoices username ls @ [json_Invoice invoice]) = Some (json_Invoice invoice)"
    by (intro find_appended) (simp_all add: id_inv_json_Invoice)
  with None show ?thesis
    by (simp add: getInvoices_saveInvoice)
next
  case (Some k)
  let ?old = "getInvoices username ls"
  from Some have k: "k < length ?old" and first: "\<forall>j<k. id_inv (?old ! j) \<noteq> id_inv invoice"
    by (simp_all add: findIndex_Some)
  have "find (\<lambda>i. id_inv i = id_inv invoice) (?old[k := json_Invoice invoice])
      = Some ((?old[k := json_Invoice invoice]) ! k)"
    using k first by (intro find_first) (simp_all add: id_inv_json_Invoice)
  with k Some show ?thesis
    by (simp add: getInvoices_saveInvoice)
qed

text \<open>
  Claim C9, as the code has it. After \<open>saveInvoice\<close>, looking the saved identifier up in
  the list that \<open>getInvoices\<close> returns for the same user, as the editor does when it opens
  an invoice, gives the saved invoice as JSON writes it: with \<open>null\<close> for every number
  that is NaN or infinite and \<open>0\<close> for \<open>-0\<close>. That is the invoice that was saved, equal
  in every field, when none of its numbers is NaN, infinite or \<open>-0\<close>.
\<close>

theorem save_then_load:
  "find (\<lambda>i. id_inv i = id_inv invoice)
     (getInvoices username (saveInvoice username invoice ls)) = Some (json_Invoice invoice)
   \<and> (json_safe invoice \<longrightarrow>
        find (\<lambda>i. id_inv i = id_inv invoice)
          (getInvoices username (saveInvoice username invoice ls)) = Some invoice)"
  by (simp add: find_saved_invoice json_Invoice_safe)

text \<open>
  Claim C9 as the specification states it fails on an invoice with the row that
  \<open>calculateRow\<close> returns at the rate \<open>1e308\<close>, discount 1000 and quantity 0, and the
  totals of that row: the unit price is infinite, the line total and both totals are NaN,
  and all four are \<open>null\<close> in the invoice that is loaded.
\<close>

theorem save_then_load_counterexample:
  "getInvoices ''ali''
     (saveInvoice ''ali''
        \<lparr>id_inv = ''k3x9q2a'', name_inv = ''March'', date = ''2026-03-01'',
          items = [\<lparr>id_item = ''a1'', name_item = ''pen'', qty = Number (number 0 1),
                    rate = Number (Finite False 5010420900022432 971),
                    tp = Number (Finite False 8567819739038359 970),
                    discount = Number (number 1000 1), totalPerPiece = Number (Infinity False),
                    totalAmount = Number NaN\<rparr>],
          payments = [], status = PENDING, totalAmount_inv = Number NaN,
          remainingBalance_inv = Number NaN, createdAt = 2000\<rparr>
        Map.empty)
   = [\<lparr>id_inv = ''k3x9q2a'', name_inv = ''March'', date = ''2026-03-01'',
        items = [\<lparr>id_item = ''a1'', name_item = ''pen'', qty = Number (number 0 1),
                  rate = Number (Finite False 5010420900022432 971),
                  tp = Number (Finite False 8567819739038359 970),
                  discount = Number (number 1000 1), totalPerPiece = Null,
                  totalAmount = Null\<rparr>],
        payments = [], status = PENDING, totalAmount_inv = Null,
        remainingBalance_inv = Null, createdAt = 2000\<rparr>]
   \<and> getInvoices ''ali''
     (saveInvoice ''ali''
        \<lparr>id_inv = ''k3x9q2a'', name_inv = ''March'', date = ''2026-03-01'',
          items = [\<lparr>id_item = ''a1'', name_item = ''pen'', qty = Number (number 0 1),
                    rate = Number (Finite False 5010420900022432 971),
                    tp = Number (Finite False 8567819739038359 970),
                    discount = Number (number 1000 1), totalPerPiece = Number (Infinity False),
                    totalAmount = Number NaN\<rparr>],
          payments = [], status = PENDING, totalAmount_inv = Number NaN,
          remainingBalance_inv = Number NaN, createdAt = 2000\<rparr>
        Map.empty)
   \<noteq> [\<lparr>id_inv = ''k3x9q2a'', name_inv = ''March'', date = ''2026-03-01'',
        items = [\<lparr>id_item = ''a1'', name_item = ''pen'', qty = Number (number 0 1),
                  rate = Number (Finite False 5010420900022432 971),
                  tp = Number (Finite False 8567819739038359 970),
                  discount = Number (number 1000 1), totalPerPiece = Number (Infinity False),
                  totalAmount = Number NaN\<rparr>],
        payments = [], status = PENDING, totalAmount_inv = Number NaN,
        remainingBalance_inv = Number NaN, createdAt = 2000\<rparr>]"
  unfolding getInvoices_saveInvoice getInvoices_empty
  by (simp add: json_Invoice_def json_InvoiceItem_def json_number_examples)

theorem save_then_load_witness:
  "json_safe
     \<lparr>id_inv = ''k3x9q2a'', name_inv = ''March'', date = ''2026-03-01'',
       items = [\<lparr>id_item = ''b7t0v5e'', name_item = ''pen'', qty = Number (number 2 1),
                 rate = Number (number 100 1), tp = Number (number 855 10),
                 discount = Number (number 0 1), totalPerPiece = Number (number 855 10),
                 totalAmount = Number (number 171 1)\<rparr>],
       payments = [\<lparr>id_pay = ''c1'', narration = ''cash'', amount = Number (number 50 1)\<rparr>],
       status = PENDING, totalAmount_inv = Number (number 171 1),
       remainingBalance_inv = Number (number 121 1), createdAt = 2000\<rparr>
   \<and> find (\<lambda>i. id_inv i = ''k3x9q2a'')
     (getInvoices ''ali''
        (saveInvoice ''ali''
           \<lparr>id_inv = ''k3x9q2a'', name_inv = ''March'', date = ''2026-03-01'',
             items = [\<lparr>id_item = ''b7t0v5e'', name_item = ''pen'', qty = Number (number 2 1),
                       rate = Number (number 100 1), tp = Number (number 855 10),
                       discount = Number (number 0 1), totalPerPiece = Number (number 855 10),
                       totalAmount = Number (number 171 1)\<rparr>],
             payments = [\<lparr>id_pay = ''c1'', narration = ''cash'',
                          amount = Number (number 50 1)\<rparr>],
             status = PENDING, totalAmount_inv = Number (number 171 1),
             remainingBalance_inv = Number (number 121 1), createdAt = 2000\<rparr>
           [DATA_PREFIX @ ''ali'' \<mapsto> JSON_stringify
             [\<lparr>id_inv = ''k3x9q2a'', name_inv = ''Feb'', date = ''2026-02-01'', items = [],
                payments = [], status = PAID, totalAmount_inv = Number (number 0 1),
                remainingBalance_inv = Number (number 0 1), createdAt = 1000\<rparr>]]))
   = Some \<lparr>id_inv = ''k3x9q2a'', name_inv = ''March'', date = ''2026-03-01'',
             items = [\<lparr>id_item = ''b7t0v5e'', name_item = ''pen'', qty = Number (number 2 1),
                       rate = Number (number 100 1), tp = Number (number 855 10),
                       discount = Number (number 0 1), totalPerPiece = Number (number 855 10),
                       totalAmount = Number (number 171 1)\<rparr>],
             payments = [\<lparr>id_pay = ''c1'', narration = ''cash'',
                          amount = Number (number 50 1)\<rparr>],
             status = PENDING, totalAmount_inv = Number (number 171 1),
             remainingBalance_inv = Number (number 121 1), createdAt = 2000\<rparr>"
proof -
  let ?inv = "\<lparr>id_inv = ''k3x9q2a'', name_inv = ''March'', date = ''2026-03-01'',
       items = [\<lparr>id_item = ''b7t0v5e'', name_item = ''pen'', qty = Number (number 2 1),
                 rate = Number (number 100 1), tp = Number (number 855 10),
                 discount = Number (number 0 1), totalPerPiece = Number (number 855 10),
                 totalAmount = Number (number 171 1)\<rparr>],
       payments = [\<lparr>id_pay = ''c1'', narration = ''cash'', amount = Number (number 50 1)\<rparr>],
       status = PENDING, totalAmount_inv = Number (number 171 1),
       remainingBalance_inv = Number (number 121 1), createdAt = 2000\<rparr>"
  let ?ls = "[DATA_PREFIX @ ''ali'' \<mapsto> JSON_stringify
             [\<lparr>id_inv = ''k3x9q2a'', name_inv = ''Feb'', date = ''2026-02-01'', items = [],
                payments = [], status = PAID, totalAmount_inv = Number (number 0 1),
                remainingBalance_inv = Number (number 0 1), createdAt = 1000\<rparr>]]"
  have w: "written_as_is (Number (number 0 1))" "written_as_is (Number (number 2 1))"
    "written_as_is (Number (number 50 1))" "written_as_is (Number (number 100 1))"
    "written_as_is (Number (number 121 1))" "written_as_is (Number (number 171 1))"
    "written_as_is (Number (number 855 10))"
    by code_simp+
  have safe: "json_safe ?inv"
    by (simp add: json_safe_def w)
  with save_then_load [of ?inv "''ali''" ?ls]
  have "find (\<lambda>i. id_inv i = id_inv ?inv) (getInvoices ''ali'' (saveInvoice ''ali'' ?inv ?ls))
      = Some ?inv"
    by blast
  with safe show ?thesis by simp
qed

text \<open>
  Claim C10. \<open>saveInvoice\<close> leaves every stored invoice with another identifier where it
  was and as it was. When the user's list has an invoice with the saved identifier, the
  first such invoice is replaced at its position; otherwise the saved invoice is added at
  the end. What is stored is the saved invoice as JSON writes it, which is the invoice
  itself when none of its numbers is NaN, infinite or \<open>-0\<close>. The lists of other users
  are not touched.
\<close>

theorem saveInvoice_upsert_frame:
  "let old = getInvoices username ls;
       new = getInvoices username (saveInvoice username invoice ls)
   in (\<forall>j<length old. id_inv (old ! j) \<noteq> id_inv invoice \<longrightarrow> new ! j = old ! j)
      \<and> ((\<exists>x\<in>set old. id_inv x = id_inv invoice) \<longrightarrow>
           (\<exists>i<length old. id_inv (old ! i) = id_inv invoice
              \<and> (\<forall>j<i. id_inv (old ! j) \<noteq> id_inv invoice)
              \<and> new = old[i := json_Invoice invoice]))
      \<and> ((\<forall>x\<in>set old. id_inv x \<noteq> id_inv invoice) \<longrightarrow> new = old @ [json_Invoice invoice])
      \<and> (json_safe invoice \<longrightarrow> json_Invoice invoice = invoice)
      \<and> (\<forall>username'. username' \<noteq> username \<longrightarrow>
            getInvoices username' (saveInvoice username invoice ls) = getInvoices username' ls)"
proof -
  let ?old = "getInvoices username ls"
  let ?new = "getInvoices username (saveInvoice username invoice ls)"
  let ?P = "\<lambda>inv. id_inv inv = id_inv invoice"
  let ?j = "json_Invoice invoice"
  have others: "\<forall>username'. username' \<noteq> username \<longrightarrow>
      getInvoices username' (saveInvoice username invoice ls) = getInvoices username' ls"
    by (simp add: getInvoices_saveInvoice_other)
  have safe: "json_safe invoice \<longrightarrow> ?j = invoice"
    by (simp add: json_Invoice_safe)
  have "(\<forall>j<length ?old. id_inv (?old ! j) \<noteq> id_inv invoice \<longrightarrow> ?new ! j = ?old ! j)
      \<and> ((\<exists>x\<in>set ?old. id_inv x = id_inv invoice) \<longrightarrow>
           (\<exists>i<length ?old. id_inv (?old ! i) = id_inv invoice
              \<and> (\<forall>j<i. id_inv (?old ! j) \<noteq> id_inv invoice)
              \<and> ?new = ?old[i := ?j]))
      \<and> ((\<forall>x\<in>set ?old. id_inv x \<noteq> id_inv invoice) \<longrightarrow> ?new = ?old @ [?j])"
  proof (cases "findIndex ?P ?old")
    case None
    then have none: "\<forall>x\<in>set ?old. id_inv x \<noteq> id_inv invoice"
      by (simp add: findIndex_None)
    from None have new: "?new = ?old @ [?j]"
      by (simp add: getInvoices_saveInvoice)
    show ?thesis
      unfolding new using none by (simp add: nth_append)
  next
    case (Some k)
    then have k: "k < length ?old" and at: "id_inv (?old ! k) = id_inv invoice"
      and first: "\<forall>j<k. id_inv (?old ! j) \<noteq> id_inv invoice"
      by (simp_all add: findIndex_Some)
    have new: "?new = ?old[k := ?j]"
      using Some by (simp add: getInvoices_saveInvoice)
    have "\<forall>j<length ?old. id_inv (?old ! j) \<noteq> id_inv invoice \<longrightarrow>
        (?old[k := ?j]) ! j = ?old ! j"
      using at by (metis nth_list_update_neq)
    moreover have "\<exists>i<length ?old. id_inv (?old ! i) = id_inv invoice
        \<and> (\<forall>j<i. id_inv (?old ! j) \<noteq> id_inv invoice)
        \<and> ?old[k := ?j] = ?old[i := ?j]"
      using k at first by blast
    moreover have "\<not> (\<forall>x\<in>set ?old. id_inv x \<noteq> id_inv invoice)"
      using k at nth_mem by blast
    ultimately show ?thesis
      unfolding new by (intro conjI impI) (assumption, assumption, erule notE, assumption)
  qed
  with others safe show ?thesis
    unfolding Let_def by (intro conjI) (erule conjunct1, erule conjunct2 [THEN conjunct1],
      erule conjunct2 [THEN conjunct2], assumption, assumption)
qed

theorem saveInvoice_upsert_frame_witness:
  "getInvoices ''ali''
     (saveInvoice ''ali''
        \<lparr>id_inv = ''b7t0v5e'', name_inv = ''April'', date = ''2026-04-01'', items = [],
          payments = [], status = PAID, totalAmount_inv = Number (number 0 1),
          remainingBalance_inv = Number (number 0 1), createdAt = 3000\<rparr>
        [DATA_PREFIX @ ''ali'' \<mapsto> JSON_stringify
          [\<lparr>id_inv = ''k3x9q2a'', name_inv = ''Feb'', date = ''2026-02-01'', items = [],
             payments = [], status = PAID, totalAmount_inv = Number (number 0 1),
             remainingBalance_inv = Number (number 0 1), createdAt = 1000\<rparr>,
           \<lparr>id_inv = ''b7t0v5e'', name_inv = ''March'', date = ''2026-03-01'', items = [],
             payments = [], status = PENDING, totalAmount_inv = Number (number 0 1),
             remainingBalance_inv = Number (number 0 1), createdAt = 2000\<rparr>]])
   = [\<lparr>id_inv = ''k3x9q2a'', name_inv = ''Feb'', date = ''2026-02-01'', items = [],
        payments = [], status = PAID, totalAmount_inv = Number (number 0 1),
        remainingBalance_inv = Number (number 0 1), createdAt = 1000\<rparr>,
      \<lparr>id_inv = ''b7t0v5e'', name_inv = ''April'', date = ''2026-04-01'', items = [],
        payments = [], status = PAID, totalAmount_inv = Number (number 0 1),
        remainingBalance_inv = Number (number 0 1), createdAt = 3000\<rparr>]
   \<and> getInvoices ''ali''
     (saveInvoice ''ali''
        \<lparr>id_inv = ''m4p7w1c'', name_inv = ''May'', date = ''2026-05-01'', items = [],
          payments = [], status = PENDING, totalAmount_inv = Number (number 0 1),
          remainingBalance_inv = Number (number 0 1), createdAt = 4000\<rparr>
        [DATA_PREFIX @ ''ali'' \<mapsto> JSON_stringify
          [\<lparr>id_inv = ''k3x9q2a'', name_inv = ''Feb'', date = ''2026-02-01'', items = [],
             payments = [], status = PAID, totalAmount_inv = Number (number 0 1),
             remainingBalance_inv = Number (number 0 1), createdAt = 1000\<rparr>]])
   = [\<lparr>id_inv = ''k3x9q2a'', name_inv = ''Feb'', date = ''2026-02-01'', items = [],
        payments = [], status = PAID, totalAmount_inv = Number (number 0 1),
        remainingBalance_inv = Number (number 0 1), createdAt = 1000\<rparr>,
      \<lparr>id_inv = ''m4p7w1c'', name_inv = ''May'', date = ''2026-05-01'', items = [],
        payments = [], status = PENDING, totalAmount_inv = Number (number 0 1),
        remainingBalance_inv = Number (number 0 1), createdAt = 4000\<rparr>]"
proof -
  let ?feb = "\<lparr>id_inv = ''k3x9q2a'', name_inv = ''Feb'', date = ''2026-02-01'', items = [],
             payments = [], status = PAID, totalAmount_inv = Number (number 0 1),
             remainingBalance_inv = Number (number 0 1), createdAt = 1000\<rparr>"
  let ?march = "\<lparr>id_inv = ''b7t0v5e'', name_inv = ''March'', date = ''2026-03-01'', items = [],
             payments = [], status = PENDING, totalAmount_inv = Number (number 0 1),
             remainingBalance_inv = Number (number 0 1), createdAt = 2000\<rparr>"
  let ?april = "\<lparr>id_inv = ''b7t0v5e'', name_inv = ''April'', date = ''2026-04-01'', items = [],
          payments = [], status = PAID, totalAmount_inv = Number (number 0 1),
          remainingBalance_inv = Number (number 0 1), createdAt = 3000\<rparr>"
  let ?may = "\<lparr>id_inv = ''m4p7w1c'', name_inv = ''May'', date = ''2026-05-01'', items = [],
          payments = [], status = PENDING, totalAmount_inv = Number (number 0 1),
          remainingBalance_inv = Number (number 0 1), createdAt = 4000\<rparr>"
  let ?ls2 = "[DATA_PREFIX @ ''ali'' \<mapsto> JSON_stringify [?feb, ?march]]"
  let ?ls1 = "[DATA_PREFIX @ ''ali'' \<mapsto> JSON_stringify [?feb]]"
  have j: "json_Invoice ?feb = ?feb" "json_Invoice ?march = ?march"
    "json_Invoice ?april = ?april" "json_Invoice ?may = ?may"
    by (simp_all add: json_Invoice_def json_number_examples)
  have old2: "getInvoices ''ali'' ?ls2 = [?feb, ?march]" and old1: "getInvoices ''ali'' ?ls1 = [?feb]"
    by (simp_all add: getInvoices_def JSON_stringify_def j)
  have "\<exists>x\<in>set (getInvoices ''ali'' ?ls2). id_inv x = id_inv ?april"
    unfolding old2 by simp
  with saveInvoice_upsert_frame [of "''ali''" ?ls2 ?april]
  obtain i where i: "i < length (getInvoices ''ali'' ?ls2)"
      "id_inv (getInvoices ''ali'' ?ls2 ! i) = id_inv ?april"
      "getInvoices ''ali'' (saveInvoice ''ali'' ?april ?ls2)
        = (getInvoices ''ali'' ?ls2)[i := json_Invoice ?april]"
    unfolding Let_def by blast
  from i(1,2) have "i = 1"
    unfolding old2 by (cases i) simp_all
  with i(3) have a: "getInvoices ''ali'' (saveInvoice ''ali'' ?april ?ls2) = [?feb, ?april]"
    unfolding old2 j by simp
  have "\<forall>x\<in>set (getInvoices ''ali'' ?ls1). id_inv x \<noteq> id_inv ?may"
    unfolding old1 by simp
  with saveInvoice_upsert_frame [of "''ali''" ?ls1 ?may]
  have "getInvoices ''ali'' (saveInvoice ''ali'' ?may ?ls1)
      = getInvoices ''ali'' ?ls1 @ [json_Invoice ?may]"
    unfolding Let_def by blast
  then have b: "getInvoices ''ali'' (saveInvoice ''ali'' ?may ?ls1) = [?feb, ?may]"
    unfolding old1 j by simp
  from a b show ?thesis by (rule conjI)
qed

section \<open>Properties of saving from the editor\<close>

lemma handleSave_snapshot:
  assumes "invoiceName st \<noteq> []" and "items_st st = map Item its"
    and "payments_st st = map Item ps"
  shows "handleSave username existingInvoiceId newId now st ls =
    Saved (saveInvoice username
      \<lparr>id_inv = (case truthy existingInvoiceId of Some eid \<Rightarrow> eid | None \<Rightarrow> newId),
       name_inv = invoiceName st, date = invoiceDate st, items = its, payments = ps,
       status = status_st st, totalAmount_inv = Number (grandTotal its),
       remainingBalance_inv = Number (remainingBalance its ps), createdAt = now\<rparr> ls)"
  using assms by (simp add: handleSave_def typed_map_Item Let_def)

lemma toggleStatus_keeps_createdAt:
  "find (\<lambda>i. id_inv i = id_inv invoice) (getInvoices username (toggleStatus username invoice ls))
     = Some (json_Invoice (invoice\<lparr>status := (if status invoice = PAID then PENDING else PAID)\<rparr>))
   \<and> createdAt (json_Invoice
         (invoice\<lparr>status := (if status invoice = PAID then PENDING else PAID)\<rparr>))
     = createdAt invoice"
proof -
  let ?u = "invoice\<lparr>status := (if status invoice = PAID then PENDING else PAID)\<rparr>"
  have "toggleStatus username invoice ls = saveInvoice username ?u ls"
    by (simp add: toggleStatus_def Let_def)
  moreover have "id_inv ?u = id_inv invoice"
    by simp
  moreover have "find (\<lambda>i. id_inv i = id_inv ?u) (getInvoices username (saveInvoice username ?u ls))
      = Some (json_Invoice ?u)"
    by (rule find_saved_invoice)
  ultimately show ?thesis
    by (simp add: createdAt_json_Invoice)
qed

text \<open>
  The editor saves the invoice with the overflowing row as it is, with totals that are
  NaN.
\<close>

lemma handleSave_overflow:
  "handleSave ''ali'' None ''k3x9q2a'' 2000
     \<lparr>invoiceName = ''March'', invoiceDate = ''2026-03-01'',
       items_st = [Item \<lparr>id_item = ''a1'', name_item = ''pen'', qty = Number (number 0 1),
                    rate = Number (Finite False 5010420900022432 971),
                    tp = Number (Finite False 8567819739038359 970),
                    discount = Number (number 1000 1), totalPerPiece = Number (Infinity False),
                    totalAmount = Number NaN\<rparr>],
       payments_st = [], status_st = PENDING\<rparr>
     Map.empty
   = Saved (saveInvoice ''ali''
        \<lparr>id_inv = ''k3x9q2a'', name_inv = ''March'', date = ''2026-03-01'',
          items = [\<lparr>id_item = ''a1'', name_item = ''pen'', qty = Number (number 0 1),
                    rate = Number (Finite False 5010420900022432 971),
                    tp = Number (Finite False 8567819739038359 970),
                    discount = Number (number 1000 1), totalPerPiece = Number (Infinity False),
                    totalAmount = Number NaN\<rparr>],
          payments = [], status = PENDING, totalAmount_inv = Number NaN,
          remainingBalance_inv = Number NaN, createdAt = 2000\<rparr>
        Map.empty)"
  by (simp add: handleSave_def Let_def grandTotal_def remainingBalance_def totalPaid_def
      fsub_def number_zero)

text \<open>
  Claim C5 at an invoice that is in the store with \<open>createdAt = 1000\<close>: opened in the
  editor and saved at time 2000, it is stored with \<open>createdAt = 2000\<close>. \<open>handleSave\<close>
  stamps every snapshot with the current time, where the dashboard's \<open>toggleStatus\<close>
  saves an invoice with the \<open>createdAt\<close> it had.
\<close>

theorem handleSave_restamps_createdAt:
  "handleSave ''ali'' (Some ''k3x9q2a'') ''m4p7w1c'' 2000
     (initialise ''ali'' (Some ''k3x9q2a'') ''2026-03-05'' ''b7t0v5e''
        [DATA_PREFIX @ ''ali'' \<mapsto> JSON_stringify
          [\<lparr>id_inv = ''k3x9q2a'', name_inv = ''March'', date = ''2026-03-01'', items = [],
             payments = [], status = PENDING, totalAmount_inv = Number (number 0 1),
             remainingBalance_inv = Number (number 0 1), createdAt = 1000\<rparr>]])
     [DATA_PREFIX @ ''ali'' \<mapsto> JSON_stringify
       [\<lparr>id_inv = ''k3x9q2a'', name_inv = ''March'', date = ''2026-03-01'', items = [],
          payments = [], status = PENDING, totalAmount_inv = Number (number 0 1),
          remainingBalance_inv = Number (number 0 1), createdAt = 1000\<rparr>]]
   = Saved
     [DATA_PREFIX @ ''ali'' \<mapsto> JSON_stringify
       [\<lparr>id_inv = ''k3x9q2a'', name_inv = ''March'', date = ''2026-03-01'', items = [],
          payments = [], status = PENDING, totalAmount_inv = Number (number 0 1),
          remainingBalance_inv = Number (number 0 1), createdAt = 2000\<rparr>]]"
  by (simp add: handleSave_def initialise_def getInvoices_def saveInvoice_def Let_def
      grandTotal_def remainingBalance_def totalPaid_def fsub_def number_zero
      JSON_stringify_def json_Invoice_def)

end
